theory Spec2Isabelle
  imports Main
begin

section \<open>JavaScript values and errors\<close>

text \<open>
  The forges pass untyped JavaScript values around (\<^verbatim>\<open>any\<close>): cursor payloads, key
  values, records, resolver arguments. They are modelled by one datatype. An object is
  the list of its own enumerable properties in enumeration order. Numbers are the
  integers; fractions, NaN and the infinities are outside the model.
\<close>

datatype jsval =
    JUndefined
  | JNull
  | JBool bool
  | JNum int
  | JStr string
  | JArr "jsval list"
  | JObj "(string \<times> jsval) list"

text \<open>
  Every \<^verbatim>\<open>throw\<close> of the two forges, and the errors the JavaScript runtime raises
  in them, is a constructor. \<open>DataSourceError\<close> stands for a rejection of one of the
  external reads (\<^verbatim>\<open>readPage\<close>, \<^verbatim>\<open>count\<close>, \<^verbatim>\<open>read\<close>).
\<close>

datatype error =
    BeforePaginatorMismatch
      \<comment> \<open>\<^verbatim>\<open>`before` cursor can not be used with this connection.\<close>\<close>
  | AfterPaginatorMismatch
      \<comment> \<open>\<^verbatim>\<open>`after` cursor can not be used with this connection.\<close>\<close>
  | BeforeOrderingMismatch
      \<comment> \<open>\<^verbatim>\<open>`before` cursor can not be used for this `orderBy` value.\<close>\<close>
  | AfterOrderingMismatch
      \<comment> \<open>\<^verbatim>\<open>`after` cursor can not be used for this `orderBy` value.\<close>\<close>
  | NodeInterfaceError
      \<comment> \<open>\<^verbatim>\<open>GraphQL object type must implement the Node interface.\<close>\<close>
  | IdCollectionMismatch string string
      \<comment> \<open>\<^verbatim>\<open>__id is for collection 'name', not expected collection 'expected'.\<close>\<close>
  | TypeError
      \<comment> \<open>a property read on \<^verbatim>\<open>undefined\<close>, a call of a non-function, a non-iterable destructured\<close>
  | SyntaxError
      \<comment> \<open>\<^verbatim>\<open>JSON.parse\<close> on a text that is not JSON\<close>
  | DataSourceError string

text \<open>JavaScript truthiness, as \<^verbatim>\<open>&&\<close> and \<^verbatim>\<open>? :\<close> test it.\<close>

fun truthy :: "jsval \<Rightarrow> bool" where
  "truthy JUndefined = False"
| "truthy JNull = False"
| "truthy (JBool b) = b"
| "truthy (JNum n) = (n \<noteq> 0)"
| "truthy (JStr s) = (s \<noteq> [])"
| "truthy (JArr _) = True"
| "truthy (JObj _) = True"

section \<open>Schema type descriptors\<close>

text \<open>
  A descriptor the forges build with \<^verbatim>\<open>new\<close> is an object with an identity: the
  number it was allocated under. Two descriptors are the same object exactly when their
  identities are equal, whatever their names and fields. A field of an object type is
  kept by its name and type; its resolver is a definition of its own.
\<close>

text \<open>A \<^verbatim>\<open>Paginator.Ordering\<close>; the forges read its name only.\<close>

record ordering =
  ordering_name :: string

record gql_interface =
  iface_ident :: nat
  iface_name :: string

datatype gql_type =
    GScalar string
  | GEnum nat string "(string \<times> ordering) list"
  | GInterface gql_interface
  | GObject nat string "gql_interface list" "(string \<times> gql_type) list"
  | GNonNull gql_type
  | GList gql_type

text \<open>\<^verbatim>\<open>getNamedType\<close> of graphql-js strips the list and non-null wrappers.\<close>

fun getNamedType :: "gql_type \<Rightarrow> gql_type" where
  "getNamedType (GNonNull t) = getNamedType t"
| "getNamedType (GList t) = getNamedType t"
| "getNamedType t = t"

text \<open>\<^verbatim>\<open>gqlPaginatorType.getInterfaces()\<close>: only an object type has the method.\<close>

fun getInterfaces :: "gql_type \<Rightarrow> error + gql_interface list" where
  "getInterfaces (GObject _ _ ifaces _) = Inr ifaces"
| "getInterfaces _ = Inl TypeError"

fun type_name :: "gql_type \<Rightarrow> string" where
  "type_name (GScalar n) = n"
| "type_name (GEnum _ n _) = n"
| "type_name (GInterface i) = iface_name i"
| "type_name (GObject _ n _ _) = n"
| "type_name (GNonNull t) = type_name t"
| "type_name (GList t) = type_name t"

text \<open>The identity of a descriptor built with \<^verbatim>\<open>new\<close>; the built-in scalars
  are singletons known by their names.\<close>

fun type_ident :: "gql_type \<Rightarrow> nat option" where
  "type_ident (GEnum i _ _) = Some i"
| "type_ident (GInterface i) = Some (iface_ident i)"
| "type_ident (GObject i _ _ _) = Some i"
| "type_ident _ = None"

text \<open>\<^verbatim>\<open>interfaces.indexOf(iface) === -1\<close> compares references.\<close>

definition indexOf_is_minus1 :: "gql_interface list \<Rightarrow> gql_interface \<Rightarrow> bool" where
  "indexOf_is_minus1 ifaces iface = (iface_ident iface \<notin> set (map iface_ident ifaces))"

section \<open>The paginator contract\<close>

text \<open>\<^verbatim>\<open>type NamespacedCursor<TCursor> = { paginatorName, orderingName, cursor }\<close>.
  The fields of a decoded cursor are whatever the token held, so they are values.\<close>

record namespaced_cursor =
  paginatorName :: jsval
  orderingName :: jsval
  cursor :: jsval

record page_item =
  item_cursor :: jsval
  item_value :: jsval

record page =
  page_values :: "page_item list"
  hasNext :: bool
  hasPrevious :: bool

datatype condition = ConditionTrue | ConditionOf jsval

text \<open>The second argument of \<^verbatim>\<open>Paginator#readPage\<close>.\<close>

record page_config =
  beforeCursor :: jsval
  afterCursor :: jsval
  pc_first :: "int option"
  pc_last :: "int option"
  pc_ordering :: "ordering option"
  pc_condition :: condition

text \<open>
  A catalog type: a named scalar, or an \<^verbatim>\<open>ObjectType\<close> with its name, its description,
  its ordered fields (name, description, type) and its \<^verbatim>\<open>createFromFieldValues\<close>
  method, which the catalog classes implement and the forges only call.
\<close>

datatype cat_type =
    ScalarType string
  | ObjectType string "string option" "(string \<times> string option \<times> cat_type) list"
      "jsval list \<Rightarrow> jsval"

text \<open>
  A paginator is external: the forge reads its name, type and orderings and calls
  \<^verbatim>\<open>readPage\<close> and \<^verbatim>\<open>count\<close>, which are functions of their
  arguments here and return the page or the rejection of the promise.
\<close>

record paginator =
  pg_getName :: string
  pg_getType :: cat_type
  pg_getOrderings :: "ordering list"
  pg_getDefaultOrdering :: "ordering option"
  pg_readPage :: "jsval \<Rightarrow> page_config \<Rightarrow> error + page"
  pg_count :: "jsval \<Rightarrow> condition \<Rightarrow> error + int"

text \<open>\<^verbatim>\<open>type ConditionConfig<TValue> = { type, getCondition }\<close>.\<close>

record condition_config =
  cc_type :: gql_type
  cc_getCondition :: "jsval \<Rightarrow> condition"

text \<open>\<^verbatim>\<open>type ConnectionArgs\<close>: an absent argument is \<open>None\<close>.\<close>

record connection_args =
  orderBy :: "ordering option"
  before :: "namespaced_cursor option"
  after :: "namespaced_cursor option"
  first_arg :: "int option"
  last_arg :: "int option"
  condition_arg :: jsval

text \<open>\<^verbatim>\<open>interface Connection<TValue, TCursor>\<close>, the value a connection field resolves to.\<close>

record connection =
  conn_paginator :: paginator
  conn_ordering :: "ordering option"
  conn_condition :: condition
  conn_page :: page

text \<open>\<^verbatim>\<open>interface Edge<TValue, TCursor>\<close>.\<close>

record edge =
  edge_paginator :: paginator
  edge_ordering :: "ordering option"
  edge_cursor :: jsval
  edge_value :: jsval

section \<open>ConnectionForge: the resolvers\<close>

text \<open>
  The calls of \<^verbatim>\<open>paginator.readPage\<close> made so far are the state of a resolution:
  each call appends the paginator's name and the configuration it was called with.
\<close>

type_synonym call_log = "(string \<times> page_config) list"

text \<open>\<^verbatim>\<open>ordering ? ordering.name : null\<close>.\<close>

definition orderingName_of :: "ordering option \<Rightarrow> jsval" where
  "orderingName_of ordering' =
     (case ordering' of Some ord \<Rightarrow> JStr (ordering_name ord) | None \<Rightarrow> JNull)"

text \<open>\<^verbatim>\<open>beforeCursor && beforeCursor.cursor\<close>.\<close>

definition cursor_of :: "namespaced_cursor option \<Rightarrow> jsval" where
  "cursor_of c = (case c of Some nc \<Rightarrow> cursor nc | None \<Rightarrow> JUndefined)"

text \<open>\<^verbatim>\<open>beforeCursor && beforeCursor.paginatorName !== paginatorName\<close>: the test of
  the first two guards of the resolver.\<close>

definition paginator_mismatch :: "string \<Rightarrow> namespaced_cursor option \<Rightarrow> bool" where
  "paginator_mismatch name c =
     (case c of Some nc \<Rightarrow> paginatorName nc \<noteq> JStr name | None \<Rightarrow> False)"

text \<open>\<^verbatim>\<open>beforeCursor && beforeCursor.orderingName !== (ordering ? ordering.name : null)\<close>:
  the test of the last two guards.\<close>

definition ordering_mismatch :: "ordering option \<Rightarrow> namespaced_cursor option \<Rightarrow> bool" where
  "ordering_mismatch ordering' c =
     (case c of Some nc \<Rightarrow> orderingName nc \<noteq> orderingName_of ordering' | None \<Rightarrow> False)"

text \<open>
  The \<^verbatim>\<open>resolve\<close> arrow function of \<^verbatim>\<open>createField\<close>, closed over
  \<^verbatim>\<open>paginator\<close> and \<^verbatim>\<open>conditionConfig\<close>. The guards are tried in the source's
  order; the first that holds throws. Only then is the condition computed and
  \<^verbatim>\<open>readPage\<close> called, which is logged.
\<close>

definition createField_resolve ::
  "paginator \<Rightarrow> condition_config option \<Rightarrow> jsval \<Rightarrow> connection_args \<Rightarrow> jsval \<Rightarrow>
   call_log \<Rightarrow> (error + connection) \<times> call_log" where
  "createField_resolve pgn conditionConfig source args ctx log =
     (let paginatorName = pg_getName pgn;
          ordering' = orderBy args;
          beforeCursor = before args;
          afterCursor = after args
      in
      if paginator_mismatch paginatorName beforeCursor then (Inl BeforePaginatorMismatch, log)
      else if paginator_mismatch paginatorName afterCursor then (Inl AfterPaginatorMismatch, log)
      else if ordering_mismatch ordering' beforeCursor then (Inl BeforeOrderingMismatch, log)
      else if ordering_mismatch ordering' afterCursor then (Inl AfterOrderingMismatch, log)
      else
        let cond =
              (case conditionConfig of
                 Some cc \<Rightarrow>
                   if truthy (condition_arg args) then cc_getCondition cc (condition_arg args)
                   else ConditionTrue
               | None \<Rightarrow> ConditionTrue);
            config =
              \<lparr> beforeCursor = cursor_of beforeCursor,
                afterCursor = cursor_of afterCursor,
                pc_first = first_arg args,
                pc_last = last_arg args,
                pc_ordering = ordering',
                pc_condition = cond \<rparr>;
            log' = log @ [(paginatorName, config)]
        in
        case pg_readPage pgn ctx config of
          Inl e \<Rightarrow> (Inl e, log')
        | Inr pg \<Rightarrow>
            (Inr \<lparr> conn_paginator = pgn, conn_ordering = ordering',
                   conn_condition = cond, conn_page = pg \<rparr>, log'))"

text \<open>The \<^verbatim>\<open>edges\<close> resolver of the connection type:
  \<^verbatim>\<open>page.values.map(({ cursor, value }) => ({ paginator, ordering, cursor, value }))\<close>.\<close>

definition connection_edges_resolve :: "connection \<Rightarrow> edge list" where
  "connection_edges_resolve conn =
     map (\<lambda>item. \<lparr> edge_paginator = conn_paginator conn, edge_ordering = conn_ordering conn,
                    edge_cursor = item_cursor item, edge_value = item_value item \<rparr>)
       (page_values (conn_page conn))"

text \<open>The \<^verbatim>\<open>nodes\<close> resolver: \<^verbatim>\<open>page.values.map(({ value }) => value)\<close>.\<close>

definition connection_nodes_resolve :: "connection \<Rightarrow> jsval list" where
  "connection_nodes_resolve conn = map item_value (page_values (conn_page conn))"

text \<open>The \<^verbatim>\<open>cursor\<close> resolver of the edge type \<^verbatim>\<open>_createEdgeType\<close> builds for a
  paginator; \<^verbatim>\<open>paginatorName\<close> is the name read when the type was created.\<close>

definition edge_cursor_resolve :: "paginator \<Rightarrow> edge \<Rightarrow> namespaced_cursor" where
  "edge_cursor_resolve pgn e =
     (let paginatorName = pg_getName pgn
      in \<lparr> paginatorName = JStr paginatorName,
           orderingName = orderingName_of (edge_ordering e),
           cursor = edge_cursor e \<rparr>)"

text \<open>
  The \<^verbatim>\<open>startCursor\<close> and \<^verbatim>\<open>endCursor\<close> resolvers of \<^verbatim>\<open>_pageInfoType\<close>.
  \<^verbatim>\<open>page.values[0]\<close> is \<^verbatim>\<open>undefined\<close> when the array is empty, and reading
  \<^verbatim>\<open>.cursor\<close> of \<^verbatim>\<open>undefined\<close> throws a TypeError; so does
  \<^verbatim>\<open>page.values[page.values.length - 1]\<close>, index \<open>-1\<close>.
\<close>

definition pageInfo_startCursor_resolve :: "connection \<Rightarrow> error + namespaced_cursor" where
  "pageInfo_startCursor_resolve conn =
     (case page_values (conn_page conn) of
        [] \<Rightarrow> Inl TypeError
      | item # _ \<Rightarrow>
          Inr \<lparr> paginatorName = JStr (pg_getName (conn_paginator conn)),
                orderingName = orderingName_of (conn_ordering conn),
                cursor = item_cursor item \<rparr>)"

definition pageInfo_endCursor_resolve :: "connection \<Rightarrow> error + namespaced_cursor" where
  "pageInfo_endCursor_resolve conn =
     (let vs = page_values (conn_page conn)
      in if vs = [] then Inl TypeError
         else Inr \<lparr> paginatorName = JStr (pg_getName (conn_paginator conn)),
                    orderingName = orderingName_of (conn_ordering conn),
                    cursor = item_cursor (vs ! (length vs - 1)) \<rparr>)"

definition pageInfo_hasNextPage_resolve :: "connection \<Rightarrow> bool" where
  "pageInfo_hasNextPage_resolve conn = hasNext (conn_page conn)"

definition pageInfo_hasPreviousPage_resolve :: "connection \<Rightarrow> bool" where
  "pageInfo_hasPreviousPage_resolve conn = hasPrevious (conn_page conn)"

record gql_arg =
  arg_type :: gql_type
  arg_description :: "string option"
  arg_defaultValue :: "ordering option"

text \<open>
  The helper modules \<^verbatim>\<open>utils/formatName\<close> and \<^verbatim>\<open>utils/id\<close> and the classes
  \<^verbatim>\<open>TypeForge\<close> and \<^verbatim>\<open>NodeForge\<close> are used by the two forges and are not
  among the sources: the functions the forges call are parameters.
\<close>

record modules =
  formatName_type :: "string \<Rightarrow> string"
  formatName_field :: "string \<Rightarrow> string"
  formatName_arg :: "string \<Rightarrow> string"
  formatName_enumValue :: "string \<Rightarrow> string"
  id_serialize :: "string \<Rightarrow> jsval \<Rightarrow> string"
  id_deserialize :: "jsval \<Rightarrow> error + string \<times> jsval"

record type_forge =
  getOutputType :: "cat_type \<Rightarrow> gql_type"
  getInputType :: "cat_type \<Rightarrow> gql_type"

record node_forge =
  getInterfaceType :: gql_interface

text \<open>
  \<^verbatim>\<open>utils/buildObject\<close> is not among the sources either. It is called with arrays
  of \<^verbatim>\<open>[key, value]\<close> entries, some of them falsy (\<^verbatim>\<open>conditionConfig && [...]\<close>),
  and returns the object with those properties: here the entries that are present, in
  order.
\<close>

definition buildObject :: "(string \<times> 'a) option list list \<Rightarrow> (string \<times> 'a) list" where
  "buildObject entriess = List.map_filter (\<lambda>entry. entry) (concat entriess)"

section \<open>ConnectionForge: building the field\<close>

text \<open>The static members \<^verbatim>\<open>_cursorType\<close> and \<^verbatim>\<open>_pageInfoType\<close>, created once
  when the class is defined; the identity \<open>0\<close> is the page info type's.\<close>

definition cursorType :: gql_type where
  "cursorType = GScalar ''Cursor''"

definition pageInfoType :: gql_type where
  "pageInfoType =
     GObject 0 ''PageInfo'' []
       [(''hasNextPage'', GNonNull (GScalar ''Boolean'')),
        (''hasPreviousPage'', GNonNull (GScalar ''Boolean'')),
        (''startCursor'', cursorType),
        (''endCursor'', cursorType)]"

text \<open>An instance of \<^verbatim>\<open>ConnectionForge\<close>: its two constructor arguments and the two
  interface types its field initialisers create.\<close>

record connection_forge =
  cf_nodeForge :: node_forge
  cf_typeForge :: type_forge
  cf_edgeInterfaceType :: gql_interface
  cf_connectionInterfaceType :: gql_interface

text \<open>\<^verbatim>\<open>_createEdgeType\<close>: a new object type on every call. The second component
  is the next free identity.\<close>

definition createEdgeType ::
  "modules \<Rightarrow> connection_forge \<Rightarrow> paginator \<Rightarrow> gql_type \<Rightarrow> nat \<Rightarrow> gql_type \<times> nat" where
  "createEdgeType m forge pgn gqlPaginatorType heap =
     (GObject heap (formatName_type m (type_name gqlPaginatorType @ ''-edge''))
        [cf_edgeInterfaceType forge]
        [(''cursor'', GNonNull cursorType),
         (''node'', gqlPaginatorType)],
      Suc heap)"

text \<open>\<^verbatim>\<open>_createConnectionType\<close>: creates the edge type, then a new object type.\<close>

definition createConnectionType ::
  "modules \<Rightarrow> connection_forge \<Rightarrow> paginator \<Rightarrow> gql_type \<Rightarrow> nat \<Rightarrow> gql_type \<times> nat" where
  "createConnectionType m forge pgn gqlPaginatorType heap =
     (let (gqlEdgeType, heap1) = createEdgeType m forge pgn gqlPaginatorType heap
      in (GObject heap1 (formatName_type m (type_name gqlPaginatorType @ ''-connection''))
            [cf_connectionInterfaceType forge]
            [(''pageInfo'', GNonNull pageInfoType),
             (''totalCount'', GScalar ''Int''),
             (''edges'', GList gqlEdgeType),
             (''nodes'', GList gqlPaginatorType)],
          Suc heap1))"

text \<open>\<^verbatim>\<open>_createOrderByEnumType\<close>.\<close>

definition createOrderByEnumType ::
  "modules \<Rightarrow> paginator \<Rightarrow> gql_type \<Rightarrow> nat \<Rightarrow> gql_type \<times> nat" where
  "createOrderByEnumType m pgn gqlType heap =
     (GEnum heap (formatName_type m (type_name gqlType @ ''-order-by''))
        (buildObject
           [map (\<lambda>ord. Some (formatName_enumValue m (ordering_name ord), ord))
              (pg_getOrderings pgn)]),
      Suc heap)"

text \<open>The \<^verbatim>\<open>GraphQLFieldConfig\<close> that \<^verbatim>\<open>createField\<close> returns.\<close>

record connection_field =
  cfield_type :: gql_type
  cfield_args :: "(string \<times> gql_arg) list"
  cfield_resolve ::
    "jsval \<Rightarrow> connection_args \<Rightarrow> jsval \<Rightarrow> call_log \<Rightarrow> (error + connection) \<times> call_log"

text \<open>
  \<^verbatim>\<open>createField\<close>. The cast \<^verbatim>\<open>as GraphQLObjectType\<close> checks nothing: on a named
  type that is no object type the call of \<^verbatim>\<open>getInterfaces\<close> throws. The state is
  the next free identity; a throw leaves it as it was.
\<close>

definition createField ::
  "modules \<Rightarrow> connection_forge \<Rightarrow> paginator \<Rightarrow> condition_config option \<Rightarrow> nat \<Rightarrow>
   (error + connection_field) \<times> nat" where
  "createField m forge pgn conditionConfig heap =
     (let paginatorType = pg_getType pgn;
          gqlPaginatorType = getNamedType (getOutputType (cf_typeForge forge) paginatorType)
      in
      case getInterfaces gqlPaginatorType of
        Inl e \<Rightarrow> (Inl e, heap)
      | Inr ifaces \<Rightarrow>
          if indexOf_is_minus1 ifaces (getInterfaceType (cf_nodeForge forge))
          then (Inl NodeInterfaceError, heap)
          else
            let (gqlConnectionType, heap1) =
                  createConnectionType m forge pgn gqlPaginatorType heap;
                (gqlOrderByEnum, heap2) = createOrderByEnumType m pgn gqlPaginatorType heap1
            in
            (Inr \<lparr> cfield_type = gqlConnectionType,
                   cfield_args =
                     buildObject
                       [[Some (''orderBy'',
                           \<lparr> arg_type = gqlOrderByEnum, arg_description = None,
                             arg_defaultValue = pg_getDefaultOrdering pgn \<rparr>),
                         Some (''before'',
                           \<lparr> arg_type = cursorType, arg_description = None,
                             arg_defaultValue = None \<rparr>),
                         Some (''after'',
                           \<lparr> arg_type = cursorType, arg_description = None,
                             arg_defaultValue = None \<rparr>),
                         Some (''first'',
                           \<lparr> arg_type = GScalar ''Int'', arg_description = None,
                             arg_defaultValue = None \<rparr>),
                         Some (''last'',
                           \<lparr> arg_type = GScalar ''Int'', arg_description = None,
                             arg_defaultValue = None \<rparr>),
                         map_option
                           (\<lambda>cc. (''condition'',
                              \<lparr> arg_type = cc_type cc, arg_description = None,
                                arg_defaultValue = None \<rparr>))
                           conditionConfig]],
                   cfield_resolve = createField_resolve pgn conditionConfig \<rparr>,
             heap2))"

section \<open>The catalog\<close>

text \<open>
  Collections, their keys and their relations refer to each other (a key knows its
  collection, a collection its keys), so a collection is referred to by its identity
  and the catalog maps an identity to the collection. That identity is also what the
  memoization of \<^verbatim>\<open>getType\<close> is keyed on. \<^verbatim>\<open>read\<close> is external: it returns
  the record, \<open>None\<close> when the key matches none, or the rejection of the promise.
\<close>

record collection_key =
  key_getCollection :: nat
  key_getName :: string
  key_getType :: cat_type
  key_read :: "jsval \<Rightarrow> error + jsval option"
  key_getKeyForValue :: "jsval \<Rightarrow> jsval"

record relation =
  rel_getName :: string
  rel_getHeadCollectionKey :: collection_key
  rel_getHeadKeyFromTailValue :: "jsval \<Rightarrow> jsval"

record collection =
  col_ident :: nat
  col_getName :: string
  col_getType :: cat_type
  col_getPrimaryKey :: "collection_key option"
  col_getKeys :: "collection_key list"
  col_getTailRelations :: "relation list"

type_synonym catalog = "nat \<Rightarrow> collection"

text \<open>The accessors of \<^verbatim>\<open>ObjectType\<close> that the forge calls on
  \<^verbatim>\<open>collection.getType()\<close>.\<close>

fun ot_getName :: "cat_type \<Rightarrow> string" where
  "ot_getName (ObjectType n _ _ _) = n"
| "ot_getName (ScalarType n) = n"

fun ot_getDescription :: "cat_type \<Rightarrow> string option" where
  "ot_getDescription (ObjectType _ d _ _) = d"
| "ot_getDescription (ScalarType _) = None"

fun ot_getFields :: "cat_type \<Rightarrow> (string \<times> string option \<times> cat_type) list" where
  "ot_getFields (ObjectType _ _ fs _) = fs"
| "ot_getFields (ScalarType _) = []"

section \<open>CollectionForge\<close>

record collection_forge =
  clf_typeForge :: type_forge
  clf_nodeForge :: node_forge

text \<open>
  The state of schema construction: the next free identity, and the cache of the
  \<^verbatim>\<open>@memoize\<close> decorator on \<^verbatim>\<open>getType\<close>, keyed by the collection's identity.
\<close>

record forge_state =
  next_ident :: nat
  getType_cache :: "nat \<rightharpoonup> gql_type"

text \<open>
  \<^verbatim>\<open>getType\<close>. The decorator (\<^verbatim>\<open>utils/memoize\<close>, not among the sources) returns
  the cached descriptor of a collection it has seen, and otherwise runs the method and
  caches what it returns. The method evaluates the whole configuration object before it
  calls \<^verbatim>\<open>new GraphQLObjectType\<close>: \<^verbatim>\<open>fields\<close> is the value of the
  \<^verbatim>\<open>buildObject(...)\<close> call, not a function, and the callback of
  \<^verbatim>\<open>getTailRelations().map\<close> calls \<^verbatim>\<open>this.getType(headCollection)\<close> for each
  relation as it builds the entry. So the recursive calls run, in the relations' order,
  before this collection's descriptor exists and before the cache holds it.

  The first argument bounds the depth of nested calls (the call stack): \<open>None\<close> is a
  call that has not returned within it.
\<close>

fun getType ::
    "nat \<Rightarrow> modules \<Rightarrow> collection_forge \<Rightarrow> catalog \<Rightarrow> collection \<Rightarrow> forge_state \<Rightarrow>
     (gql_type \<times> forge_state) option"
  and getType_tailRelations ::
    "nat \<Rightarrow> modules \<Rightarrow> collection_forge \<Rightarrow> catalog \<Rightarrow> relation list \<Rightarrow> forge_state \<Rightarrow>
     ((string \<times> gql_type) option list \<times> forge_state) option"
where
  "getType 0 m forge cat collection st = None"
| "getType (Suc depth) m forge cat collection st =
     (case getType_cache st (col_ident collection) of
        Some cached \<Rightarrow> Some (cached, st)
      | None \<Rightarrow>
          (let type = col_getType collection;
               primaryKey = col_getPrimaryKey collection
           in
           case getType_tailRelations depth m forge cat (col_getTailRelations collection) st of
             None \<Rightarrow> None
           | Some (relationFields, st1) \<Rightarrow>
               (let gqlType =
                      GObject (next_ident st1)
                        (formatName_type m (ot_getName type))
                        (case primaryKey of
                           Some _ \<Rightarrow> [getInterfaceType (clf_nodeForge forge)]
                         | None \<Rightarrow> [])
                        (buildObject
                           [case primaryKey of
                              Some _ \<Rightarrow> [Some (''__id'', GNonNull (GScalar ''ID''))]
                            | None \<Rightarrow> [],
                            map (\<lambda>(fname, fdesc, ftype).
                                   Some (formatName_field m fname,
                                         getOutputType (clf_typeForge forge) ftype))
                              (ot_getFields type),
                            relationFields])
                in Some (gqlType,
                     st1 \<lparr> next_ident := Suc (next_ident st1),
                           getType_cache :=
                             (getType_cache st1) (col_ident collection \<mapsto> gqlType) \<rparr>))))"
| "getType_tailRelations depth m forge cat [] st = Some ([], st)"
| "getType_tailRelations depth m forge cat (relation # relations) st =
     (let headCollectionKey = rel_getHeadCollectionKey relation;
          headCollection = cat (key_getCollection headCollectionKey)
      in
      case getType depth m forge cat headCollection st of
        None \<Rightarrow> None
      | Some (headType, st1) \<Rightarrow>
          (case getType_tailRelations depth m forge cat relations st1 of
             None \<Rightarrow> None
           | Some (entries, st2) \<Rightarrow>
               Some (Some (formatName_field m (rel_getName relation), headType) # entries,
                     st2)))"

text \<open>The arguments object a root field resolver receives; a property that is not
  there reads as \<^verbatim>\<open>undefined\<close>.\<close>

definition args_get :: "(string \<times> jsval) list \<Rightarrow> string \<Rightarrow> jsval" where
  "args_get args k = (case map_of args k of Some v \<Rightarrow> v | None \<Rightarrow> JUndefined)"

text \<open>A \<^verbatim>\<open>GraphQLFieldConfig\<close> of a root field.\<close>

record root_field =
  rf_type :: gql_type
  rf_args :: "(string \<times> gql_arg) list"
  rf_resolve :: "jsval \<Rightarrow> (string \<times> jsval) list \<Rightarrow> error + jsval option"

text \<open>
  The resolver of the field that selects by primary key:
  \<^verbatim>\<open>const { name, key } = id.deserialize(__id)\<close>, the comparison with the
  collection's name, and \<^verbatim>\<open>primaryKey.read(key)\<close>.
\<close>

definition primaryKey_resolve ::
  "modules \<Rightarrow> collection \<Rightarrow> collection_key \<Rightarrow> jsval \<Rightarrow> (string \<times> jsval) list \<Rightarrow>
   error + jsval option" where
  "primaryKey_resolve m collection primaryKey source args =
     (case id_deserialize m (args_get args ''__id'') of
        Inl e \<Rightarrow> Inl e
      | Inr (name, key) \<Rightarrow>
          if name \<noteq> col_getName collection
          then Inl (IdCollectionMismatch name (col_getName collection))
          else key_read primaryKey key)"

text \<open>
  The arguments of a field that selects by a key: one per field of an object key type,
  named \<^verbatim>\<open>formatName.arg(field.getName())\<close>, or one named
  \<^verbatim>\<open>formatName.arg(keyName)\<close>.
\<close>

definition key_args :: "modules \<Rightarrow> collection_forge \<Rightarrow> collection_key \<Rightarrow> (string \<times> gql_arg) list" where
  "key_args m forge key =
     (case key_getType key of
        ObjectType _ _ fields' _ \<Rightarrow>
          buildObject
            [map (\<lambda>(fname, fdesc, ftype).
                    Some (formatName_arg m fname,
                          \<lparr> arg_type = getInputType (clf_typeForge forge) ftype,
                            arg_description = fdesc,
                            arg_defaultValue = None \<rparr>))
               fields']
      | ScalarType _ \<Rightarrow>
          [(formatName_arg m (key_getName key),
            \<lparr> arg_type = getInputType (clf_typeForge forge) (key_getType key),
              arg_description = None,
              arg_defaultValue = None \<rparr>)])"

text \<open>
  \<^verbatim>\<open>const keyValue = ...\<close> of that field's resolver. For an object key type the values
  are read with \<^verbatim>\<open>args[field.getName()]\<close>, the field's own name; for another type
  with \<^verbatim>\<open>args[formatName.arg(keyName)]\<close>.
\<close>

definition key_keyValue :: "modules \<Rightarrow> collection_key \<Rightarrow> (string \<times> jsval) list \<Rightarrow> jsval" where
  "key_keyValue m key args =
     (case key_getType key of
        ObjectType _ _ fields' createFromFieldValues \<Rightarrow>
          createFromFieldValues (map (\<lambda>(fname, fdesc, ftype). args_get args fname) fields')
      | ScalarType _ \<Rightarrow> args_get args (formatName_arg m (key_getName key)))"

definition key_resolve ::
  "modules \<Rightarrow> collection_key \<Rightarrow> jsval \<Rightarrow> (string \<times> jsval) list \<Rightarrow> error + jsval option" where
  "key_resolve m key source args = key_read key (key_keyValue m key args)"

text \<open>The \<^verbatim>\<open>for (const key of collection.getKeys())\<close> loop of
  \<^verbatim>\<open>createRootFieldEntries\<close>; each round calls \<^verbatim>\<open>this.getType(collection)\<close>.\<close>

fun key_entries ::
  "nat \<Rightarrow> modules \<Rightarrow> collection_forge \<Rightarrow> catalog \<Rightarrow> collection \<Rightarrow> collection_key list \<Rightarrow>
   forge_state \<Rightarrow> ((string \<times> root_field) list \<times> forge_state) option" where
  "key_entries depth m forge cat collection [] st = Some ([], st)"
| "key_entries depth m forge cat collection (key # keys) st =
     (case getType depth m forge cat collection st of
        None \<Rightarrow> None
      | Some (gqlType, st1) \<Rightarrow>
          (case key_entries depth m forge cat collection keys st1 of
             None \<Rightarrow> None
           | Some (entries, st2) \<Rightarrow>
               Some ((formatName_field m
                        (ot_getName (col_getType collection) @ ''-by-'' @ key_getName key),
                      \<lparr> rf_type = gqlType,
                        rf_args = key_args m forge key,
                        rf_resolve = key_resolve m key \<rparr>) # entries,
                     st2)))"

text \<open>\<^verbatim>\<open>createRootFieldEntries\<close>: the primary key's entry, if there is a primary
  key, then the entries of the keys.\<close>

definition createRootFieldEntries ::
  "nat \<Rightarrow> modules \<Rightarrow> collection_forge \<Rightarrow> catalog \<Rightarrow> collection \<Rightarrow> forge_state \<Rightarrow>
   ((string \<times> root_field) list \<times> forge_state) option" where
  "createRootFieldEntries depth m forge cat collection st =
     (let type = col_getType collection in
      case col_getPrimaryKey collection of
        Some primaryKey \<Rightarrow>
          (case getType depth m forge cat collection st of
             None \<Rightarrow> None
           | Some (gqlType, st1) \<Rightarrow>
               (case key_entries depth m forge cat collection (col_getKeys collection) st1 of
                  None \<Rightarrow> None
                | Some (entries, st2) \<Rightarrow>
                    Some ((formatName_field m (ot_getName type),
                           \<lparr> rf_type = gqlType,
                             rf_args =
                               [(''__id'',
                                 \<lparr> arg_type = GNonNull (GScalar ''ID''),
                                   arg_description = None,
                                   arg_defaultValue = None \<rparr>)],
                             rf_resolve = primaryKey_resolve m collection primaryKey \<rparr>)
                          # entries,
                          st2)))
      | None \<Rightarrow> key_entries depth m forge cat collection (col_getKeys collection) st)"

section \<open>The cursor codec\<close>

text \<open>
  \<^verbatim>\<open>_serializeCursor\<close> and \<^verbatim>\<open>_deserializeCursor\<close> are compositions of platform
  functions: \<^verbatim>\<open>JSON.stringify\<close>, \<^verbatim>\<open>new Buffer(string)\<close> (UTF-8),
  \<^verbatim>\<open>Buffer#toString('base64')\<close>, \<^verbatim>\<open>new Buffer(string, 'base64')\<close>,
  \<^verbatim>\<open>Buffer#toString()\<close> and \<^verbatim>\<open>JSON.parse\<close>. Each is modelled on the values of
  this theory. A string is a list of code units below 256, a buffer a list of bytes,
  both \<open>char list\<close>. The three reading functions return \<open>None\<close> on an input the model
  does not cover: for \<^verbatim>\<open>JSON.parse\<close> that is a text the platform rejects with a
  SyntaxError or one it accepts with white space, fractions, exponents or escapes of code
  units above 255; for the two buffer functions an input on which the platform is lenient
  (characters outside the base64 alphabet, byte sequences that are no code point below
  256).
\<close>

subsection \<open>\<^verbatim>\<open>JSON.stringify\<close>\<close>

definition hex_digit :: "nat \<Rightarrow> char" where
  "hex_digit n = ''0123456789abcdef'' ! n"

text \<open>The \<^verbatim>\<open>QuoteJSONString\<close> step for one code unit: the quotation mark, the
  backslash and the control characters are escaped.\<close>

definition quote_char :: "char \<Rightarrow> string" where
  "quote_char c =
     (let n = (of_char c :: nat) in
      if n = 0x22 then [CHR 0x5C, CHR 0x22]
      else if n = 0x5C then [CHR 0x5C, CHR 0x5C]
      else if n = 0x08 then [CHR 0x5C, CHR ''b'']
      else if n = 0x0C then [CHR 0x5C, CHR ''f'']
      else if n = 0x0A then [CHR 0x5C, CHR ''n'']
      else if n = 0x0D then [CHR 0x5C, CHR ''r'']
      else if n = 0x09 then [CHR 0x5C, CHR ''t'']
      else if n < 0x20 then
        [CHR 0x5C, CHR ''u'', CHR ''0'', CHR ''0'', hex_digit (n div 16), hex_digit (n mod 16)]
      else [c])"

definition quote :: "string \<Rightarrow> string" where
  "quote s = CHR 0x22 # concat (map quote_char s) @ [CHR 0x22]"

definition digit_char :: "nat \<Rightarrow> char" where
  "digit_char n = ''0123456789'' ! n"

fun show_nat :: "nat \<Rightarrow> string" where
  "show_nat n = (if n < 10 then [digit_char n] else show_nat (n div 10) @ [digit_char (n mod 10)])"

declare show_nat.simps [simp del]

definition show_int :: "int \<Rightarrow> string" where
  "show_int i = (if i < 0 then CHR ''-'' # show_nat (nat (- i)) else show_nat (nat i))"

text \<open>\<^verbatim>\<open>elements.join(',')\<close>.\<close>

fun join_comma :: "string list \<Rightarrow> string" where
  "join_comma [] = []"
| "join_comma [s] = s"
| "join_comma (s # t # ss) = s @ CHR '','' # join_comma (t # ss)"

text \<open>
  \<^verbatim>\<open>JSON.stringify(value)\<close> for a value that is an array element or a property
  value, without indentation. \<^verbatim>\<open>undefined\<close> is written \<^verbatim>\<open>null\<close> as an array
  element, and a property whose value is \<^verbatim>\<open>undefined\<close> is left out.
\<close>

fun JSON_stringify :: "jsval \<Rightarrow> string" where
  "JSON_stringify JUndefined = ''null''"
| "JSON_stringify JNull = ''null''"
| "JSON_stringify (JBool b) = (if b then ''true'' else ''false'')"
| "JSON_stringify (JNum i) = show_int i"
| "JSON_stringify (JStr s) = quote s"
| "JSON_stringify (JArr vs) = CHR ''['' # join_comma (map JSON_stringify vs) @ '']''"
| "JSON_stringify (JObj ps) =
     CHR ''{'' #
     join_comma
       (map (\<lambda>(k, v). quote k @ CHR '':'' # JSON_stringify v)
          (filter (\<lambda>(k, v). v \<noteq> JUndefined) ps)) @ ''}''"

subsection \<open>\<^verbatim>\<open>JSON.parse\<close>\<close>

definition hex_value :: "char \<Rightarrow> nat option" where
  "hex_value c =
     (let n = (of_char c :: nat) in
      if 48 \<le> n \<and> n \<le> 57 then Some (n - 48)
      else if 97 \<le> n \<and> n \<le> 102 then Some (n - 87)
      else if 65 \<le> n \<and> n \<le> 70 then Some (n - 55)
      else None)"

text \<open>The characters of a string literal after the opening quotation mark, up to the
  closing one: the string and the rest of the text.\<close>

fun parse_string :: "string \<Rightarrow> (string \<times> string) option" where
  "parse_string [] = None"
| "parse_string (c # r) =
     (if c = CHR 0x22 then Some ([], r)
      else if c = CHR 0x5C then
        (case r of
           [] \<Rightarrow> None
         | e # r1 \<Rightarrow>
             if e = CHR ''u'' then
               (case r1 of
                  h1 # h2 # h3 # h4 # r2 \<Rightarrow>
                    (case (hex_value h1, hex_value h2, hex_value h3, hex_value h4) of
                       (Some a, Some b, Some d, Some e') \<Rightarrow>
                         if a = 0 \<and> b = 0 then
                           map_option (\<lambda>(s, r3). (char_of (16 * d + e') # s, r3))
                             (parse_string r2)
                         else None
                     | _ \<Rightarrow> None)
                | _ \<Rightarrow> None)
             else
               (case
                  (if e = CHR 0x22 then Some (CHR 0x22)
                   else if e = CHR 0x5C then Some (CHR 0x5C)
                   else if e = CHR ''/'' then Some (CHR ''/'')
                   else if e = CHR ''b'' then Some (CHR 0x08)
                   else if e = CHR ''f'' then Some (CHR 0x0C)
                   else if e = CHR ''n'' then Some (CHR 0x0A)
                   else if e = CHR ''r'' then Some (CHR 0x0D)
                   else if e = CHR ''t'' then Some (CHR 0x09)
                   else None)
                of
                  None \<Rightarrow> None
                | Some x \<Rightarrow> map_option (\<lambda>(s, r3). (x # s, r3)) (parse_string r1)))
      else if (of_char c :: nat) < 0x20 then None
      else map_option (\<lambda>(s, r3). (c # s, r3)) (parse_string r))"

definition is_digit :: "char \<Rightarrow> bool" where
  "is_digit c = (48 \<le> (of_char c :: nat) \<and> (of_char c :: nat) \<le> 57)"

definition digits_value :: "string \<Rightarrow> nat" where
  "digits_value ds = foldl (\<lambda>a d. 10 * a + (of_char d - 48)) 0 ds"

text \<open>An integer without fraction and exponent: the digits before the first character
  that is no digit, without a leading zero.\<close>

definition parse_nat :: "string \<Rightarrow> (nat \<times> string) option" where
  "parse_nat s =
     (let ds = takeWhile is_digit s; r = dropWhile is_digit s in
      if ds = [] \<or> (length ds > 1 \<and> hd ds = CHR ''0'') then None
      else case r of
             c # _ \<Rightarrow>
               if c = CHR ''.'' \<or> c = CHR ''e'' \<or> c = CHR ''E'' then None
               else Some (digits_value ds, r)
           | [] \<Rightarrow> Some (digits_value ds, r))"

definition parse_number :: "string \<Rightarrow> (jsval \<times> string) option" where
  "parse_number s =
     (case s of
        [] \<Rightarrow> None
      | c # r \<Rightarrow>
          if c = CHR ''-'' then map_option (\<lambda>(n, r1). (JNum (- int n), r1)) (parse_nat r)
          else map_option (\<lambda>(n, r1). (JNum (int n), r1)) (parse_nat s))"

text \<open>Defining the properties of an object in the order of the text: a name that is
  already there keeps its place and gets the later value. (That an object lists its
  integer-like names first is not modelled: the names are in the order of the text.)\<close>

fun define_property :: "string \<Rightarrow> jsval \<Rightarrow> (string \<times> jsval) list \<Rightarrow> (string \<times> jsval) list" where
  "define_property k v [] = [(k, v)]"
| "define_property k v ((k', v') # ps) =
     (if k' = k then (k, v) # ps else (k', v') # define_property k v ps)"

definition define_properties :: "(string \<times> jsval) list \<Rightarrow> (string \<times> jsval) list" where
  "define_properties ms = foldl (\<lambda>ps (k, v). define_property k v ps) [] ms"

text \<open>
  The value at the head of a text, and the rest of the text. The first argument bounds
  the number of nested calls; \<open>JSON_parse\<close> gives it the length of the text, which is
  enough for every text that \<open>JSON_stringify\<close> writes (\<open>parse_value_stringify\<close>
  below).
\<close>

fun parse_value :: "nat \<Rightarrow> string \<Rightarrow> (jsval \<times> string) option"
  and parse_elements :: "nat \<Rightarrow> string \<Rightarrow> (jsval list \<times> string) option"
  and parse_members :: "nat \<Rightarrow> string \<Rightarrow> ((string \<times> jsval) list \<times> string) option"
where
  "parse_value 0 s = None"
| "parse_value (Suc n) s =
     (if take 4 s = ''null'' then Some (JNull, drop 4 s)
      else if take 4 s = ''true'' then Some (JBool True, drop 4 s)
      else if take 5 s = ''false'' then Some (JBool False, drop 5 s)
      else case s of
        [] \<Rightarrow> None
      | c # r \<Rightarrow>
          if c = CHR 0x22 then map_option (\<lambda>(str, r1). (JStr str, r1)) (parse_string r)
          else if c = CHR ''['' then
            (case r of
               [] \<Rightarrow> None
             | d # r1 \<Rightarrow>
                 if d = CHR '']'' then Some (JArr [], r1)
                 else map_option (\<lambda>(vs, r2). (JArr vs, r2)) (parse_elements n r))
          else if c = CHR ''{'' then
            (case r of
               [] \<Rightarrow> None
             | d # r1 \<Rightarrow>
                 if d = CHR ''}'' then Some (JObj [], r1)
                 else map_option (\<lambda>(ms, r2). (JObj (define_properties ms), r2))
                        (parse_members n r))
          else parse_number s)"
| "parse_elements 0 s = None"
| "parse_elements (Suc n) s =
     (case parse_value n s of
        None \<Rightarrow> None
      | Some (v, r) \<Rightarrow>
          (case r of
             [] \<Rightarrow> None
           | c # r1 \<Rightarrow>
               if c = CHR '','' then map_option (\<lambda>(vs, r2). (v # vs, r2)) (parse_elements n r1)
               else if c = CHR '']'' then Some ([v], r1)
               else None))"
| "parse_members 0 s = None"
| "parse_members (Suc n) s =
     (case s of
        [] \<Rightarrow> None
      | q # s1 \<Rightarrow>
          if q \<noteq> CHR 0x22 then None
          else
            (case parse_string s1 of
               None \<Rightarrow> None
             | Some (k, r) \<Rightarrow>
                 (case r of
                    [] \<Rightarrow> None
                  | c # r1 \<Rightarrow>
                      if c \<noteq> CHR '':'' then None
                      else
                        (case parse_value n r1 of
                           None \<Rightarrow> None
                         | Some (v, r2) \<Rightarrow>
                             (case r2 of
                                [] \<Rightarrow> None
                              | d # r3 \<Rightarrow>
                                  if d = CHR '','' then
                                    map_option (\<lambda>(ms, r4). ((k, v) # ms, r4))
                                      (parse_members n r3)
                                  else if d = CHR ''}'' then Some ([(k, v)], r3)
                                  else None)))))"

definition JSON_parse :: "string \<Rightarrow> jsval option" where
  "JSON_parse s = (case parse_value (length s) s of Some (v, []) \<Rightarrow> Some v | _ \<Rightarrow> None)"

subsection \<open>Buffers\<close>

text \<open>\<^verbatim>\<open>new Buffer(string)\<close>: the UTF-8 bytes of the string. A code unit below 128
  is one byte, one from 128 to 255 two.\<close>

definition utf8_encode_char :: "char \<Rightarrow> char list" where
  "utf8_encode_char c =
     (let n = (of_char c :: nat) in
      if n < 128 then [c] else [char_of (192 + n div 64), char_of (128 + n mod 64)])"

definition utf8_encode :: "string \<Rightarrow> char list" where
  "utf8_encode s = concat (map utf8_encode_char s)"

text \<open>\<^verbatim>\<open>buffer.toString()\<close>, on the bytes of code points below 256.\<close>

fun utf8_decode :: "char list \<Rightarrow> string option" where
  "utf8_decode [] = Some []"
| "utf8_decode (a # r) =
     (let n = (of_char a :: nat) in
      if n < 128 then map_option (\<lambda>s. a # s) (utf8_decode r)
      else if n = 194 \<or> n = 195 then
        (case r of
           [] \<Rightarrow> None
         | b # r1 \<Rightarrow>
             (let m = (of_char b :: nat) in
              if 128 \<le> m \<and> m < 192
              then map_option (\<lambda>s. char_of ((n - 192) * 64 + (m - 128)) # s) (utf8_decode r1)
              else None))
      else None)"

definition base64_alphabet :: string where
  "base64_alphabet = ''ABCDEFGHIJKLMNOPQRSTUVWXYZabcdefghijklmnopqrstuvwxyz0123456789+/''"

definition base64_char :: "nat \<Rightarrow> char" where
  "base64_char i = base64_alphabet ! i"

definition base64_index :: "char \<Rightarrow> nat option" where
  "base64_index c = map_of (zip base64_alphabet [0..<64]) c"

text \<open>\<^verbatim>\<open>buffer.toString('base64')\<close>: three bytes are four characters; one or two
  bytes at the end are two or three characters and the padding.\<close>

fun base64_encode :: "char list \<Rightarrow> string" where
  "base64_encode [] = []"
| "base64_encode [a] =
     (let n = (of_char a :: nat) * 65536 in
      [base64_char (n div 262144), base64_char (n div 4096 mod 64), CHR ''='', CHR ''=''])"
| "base64_encode [a, b] =
     (let n = (of_char a :: nat) * 65536 + of_char b * 256 in
      [base64_char (n div 262144), base64_char (n div 4096 mod 64),
       base64_char (n div 64 mod 64), CHR ''=''])"
| "base64_encode (a # b # c # r) =
     (let n = (of_char a :: nat) * 65536 + of_char b * 256 + of_char c in
      [base64_char (n div 262144), base64_char (n div 4096 mod 64),
       base64_char (n div 64 mod 64), base64_char (n mod 64)] @ base64_encode r)"

text \<open>\<^verbatim>\<open>new Buffer(string, 'base64')\<close>, on a text in groups of four characters of
  the alphabet with the padding in the last group only.\<close>

fun base64_decode :: "string \<Rightarrow> char list option" where
  "base64_decode [] = Some []"
| "base64_decode (w # x # y # z # r) =
     (case (base64_index w, base64_index x) of
        (Some i, Some j) \<Rightarrow>
          if r = [] \<and> y = CHR ''='' \<and> z = CHR ''='' then
            Some [char_of ((i * 262144 + j * 4096) div 65536)]
          else if r = [] \<and> z = CHR ''='' then
            (case base64_index y of
               Some k \<Rightarrow>
                 (let n = i * 262144 + j * 4096 + k * 64 in
                  Some [char_of (n div 65536), char_of (n div 256 mod 256)])
             | None \<Rightarrow> None)
          else
            (case (base64_index y, base64_index z) of
               (Some k, Some l) \<Rightarrow>
                 (let n = i * 262144 + j * 4096 + k * 64 + l in
                  map_option
                    (\<lambda>bs. char_of (n div 65536) # char_of (n div 256 mod 256) #
                          char_of (n mod 256) # bs)
                    (base64_decode r))
             | _ \<Rightarrow> None)
      | _ \<Rightarrow> None)"
| "base64_decode _ = None"

subsection \<open>The two functions\<close>

text \<open>\<^verbatim>\<open>new Buffer(JSON.stringify([paginatorName, orderingName, cursor])).toString('base64')\<close>.\<close>

definition serializeCursor :: "namespaced_cursor \<Rightarrow> string" where
  "serializeCursor nc =
     base64_encode (utf8_encode
       (JSON_stringify (JArr [paginatorName nc, orderingName nc, cursor nc])))"

text \<open>
  The array destructuring \<^verbatim>\<open>const [paginatorName, orderingName, cursor] = ...\<close>
  takes the first three values the iterator of the parsed value gives: the elements
  of an array, the characters of a string, \<^verbatim>\<open>undefined\<close> once they are used up.
  Another value is not iterable and the destructuring throws a TypeError.
\<close>

definition destructure3 :: "jsval \<Rightarrow> error + jsval \<times> jsval \<times> jsval" where
  "destructure3 v =
     (let pick = (\<lambda>xs i. if i < length xs then xs ! i else JUndefined) in
      case v of
        JArr vs \<Rightarrow> Inr (pick vs 0, pick vs 1, pick vs 2)
      | JStr s \<Rightarrow>
          (let cs = map (\<lambda>c. JStr [c]) s in Inr (pick cs 0, pick cs 1, pick cs 2))
      | _ \<Rightarrow> Inl TypeError)"

text \<open>
  \<^verbatim>\<open>JSON.parse(new Buffer(serializedCursor, 'base64').toString())\<close>, destructured.
  \<open>None\<close> is a token outside the model, see above.
\<close>

definition deserializeCursor :: "string \<Rightarrow> (error + namespaced_cursor) option" where
  "deserializeCursor serializedCursor =
     (case base64_decode serializedCursor of
        None \<Rightarrow> None
      | Some bytes \<Rightarrow>
          (case utf8_decode bytes of
             None \<Rightarrow> None
           | Some text \<Rightarrow>
               (case JSON_parse text of
                  None \<Rightarrow> None
                | Some parsed \<Rightarrow>
                    Some (case destructure3 parsed of
                            Inl e \<Rightarrow> Inl e
                          | Inr (p, ordn, c) \<Rightarrow>
                              Inr \<lparr> paginatorName = p, orderingName = ordn, cursor = c \<rparr>))))"

subsection \<open>Well-formed cursors\<close>

text \<open>
  The values \<^verbatim>\<open>JSON.stringify\<close> writes without loss in this model: no
  \<^verbatim>\<open>undefined\<close> anywhere, every number a safe integer (the integers a JavaScript
  number holds exactly and writes in decimal digits), the property names of an object
  distinct.
\<close>

fun json_value :: "jsval \<Rightarrow> bool" where
  "json_value JUndefined = False"
| "json_value JNull = True"
| "json_value (JBool b) = True"
| "json_value (JNum i) = (- 9007199254740992 < i \<and> i < 9007199254740992)"
| "json_value (JStr s) = True"
| "json_value (JArr vs) = list_all json_value vs"
| "json_value (JObj ps) = (distinct (map fst ps) \<and> list_all (\<lambda>p. json_value (snd p)) ps)"

text \<open>A well-formed \<^verbatim>\<open>NamespacedCursor\<close>, by its type: the paginator name is a
  string, the ordering name a string or \<^verbatim>\<open>null\<close>, the cursor a value as above.\<close>

definition wellformed_cursor :: "namespaced_cursor \<Rightarrow> bool" where
  "wellformed_cursor nc =
     ((case paginatorName nc of JStr _ \<Rightarrow> True | _ \<Rightarrow> False) \<and>
      (case orderingName nc of JStr _ \<Rightarrow> True | JNull \<Rightarrow> True | _ \<Rightarrow> False) \<and>
      json_value (cursor nc))"

text \<open>A rest of a text before which an integer ends: it does not go on with a digit,
  a fraction or an exponent.\<close>

definition ends_number :: "string \<Rightarrow> bool" where
  "ends_number r =
     (case r of
        [] \<Rightarrow> True
      | c # _ \<Rightarrow> \<not> is_digit c \<and> c \<noteq> CHR ''.'' \<and> c \<noteq> CHR ''e'' \<and> c \<noteq> CHR ''E'')"

section \<open>Example instances\<close>

text \<open>
  Concrete instances of the parameters, on which the theorems below are run. The name
  formatters re-case a name (\<^verbatim>\<open>row_id\<close> is the field \<^verbatim>\<open>rowId\<close>, the enum
  value \<^verbatim>\<open>ROW_ID\<close> and, for a type, \<^verbatim>\<open>RowId\<close>); a global id is the pair of a
  collection name and a key; the type forge gives every object type but
  \<^verbatim>\<open>person\<close> a descriptor without the Node interface.
\<close>

definition toUpperCase :: "char \<Rightarrow> char" where
  "toUpperCase c =
     (let n = (of_char c :: nat)
      in if 97 \<le> n \<and> n \<le> 122
         then (case c of Char b0 b1 b2 b3 b4 b5 b6 b7 \<Rightarrow> Char b0 b1 b2 b3 b4 False b6 b7)
         else c)"

fun camelCase :: "string \<Rightarrow> string" where
  "camelCase (c # d # cs) =
     (if c = CHR ''_'' \<or> c = CHR ''-'' then toUpperCase d # camelCase cs
      else c # camelCase (d # cs))"
| "camelCase cs = cs"

definition pascalCase :: "string \<Rightarrow> string" where
  "pascalCase s = (case camelCase s of [] \<Rightarrow> [] | c # cs \<Rightarrow> toUpperCase c # cs)"

definition constantCase :: "string \<Rightarrow> string" where
  "constantCase s = map (\<lambda>c. if c = CHR ''-'' then CHR ''_'' else toUpperCase c) s"

definition ex_modules :: modules where
  "ex_modules =
     \<lparr> formatName_type = pascalCase,
       formatName_field = camelCase,
       formatName_arg = camelCase,
       formatName_enumValue = constantCase,
       id_serialize = (\<lambda>name key. name),
       id_deserialize =
         (\<lambda>v. case v of JArr [JStr name, key] \<Rightarrow> Inr (name, key) | _ \<Rightarrow> Inl SyntaxError) \<rparr>"

definition ex_nodeInterface :: gql_interface where
  "ex_nodeInterface = \<lparr> iface_ident = 1, iface_name = ''Node'' \<rparr>"

definition ex_nodeForge :: node_forge where
  "ex_nodeForge = \<lparr> getInterfaceType = ex_nodeInterface \<rparr>"

definition ex_typeForge :: type_forge where
  "ex_typeForge =
     \<lparr> getOutputType =
         (\<lambda>t. case t of
                ScalarType n \<Rightarrow> GScalar n
              | ObjectType n d fs c \<Rightarrow>
                  GNonNull (GObject 4 (pascalCase n)
                    (if n = ''person'' then [ex_nodeInterface] else []) [])),
       getInputType = (\<lambda>t. GScalar (ot_getName t)) \<rparr>"

definition ex_connectionForge :: connection_forge where
  "ex_connectionForge =
     \<lparr> cf_nodeForge = ex_nodeForge,
       cf_typeForge = ex_typeForge,
       cf_edgeInterfaceType = \<lparr> iface_ident = 2, iface_name = ''Edge'' \<rparr>,
       cf_connectionInterfaceType = \<lparr> iface_ident = 3, iface_name = ''Connection'' \<rparr> \<rparr>"

definition ex_personType :: cat_type where
  "ex_personType =
     ObjectType ''person'' None
       [(''row_id'', None, ScalarType ''Int''), (''full_name'', None, ScalarType ''String'')]
       (\<lambda>vs. JObj (zip [''row_id'', ''full_name''] vs))"

definition ex_page :: page where
  "ex_page =
     \<lparr> page_values =
         [\<lparr> item_cursor = JArr [JNum 1], item_value = JObj [(''row_id'', JNum 1)] \<rparr>,
          \<lparr> item_cursor = JArr [JNum 2], item_value = JObj [(''row_id'', JNum 2)] \<rparr>],
       hasNext = True,
       hasPrevious = False \<rparr>"

definition ex_paginator :: paginator where
  "ex_paginator =
     \<lparr> pg_getName = ''person'',
       pg_getType = ex_personType,
       pg_getOrderings = [\<lparr> ordering_name = ''row_id'' \<rparr>, \<lparr> ordering_name = ''full_name'' \<rparr>],
       pg_getDefaultOrdering = Some \<lparr> ordering_name = ''row_id'' \<rparr>,
       pg_readPage = (\<lambda>ctx config. Inr ex_page),
       pg_count = (\<lambda>ctx cond. Inr 2) \<rparr>"

definition ex_tagPaginator :: paginator where
  "ex_tagPaginator =
     \<lparr> pg_getName = ''tag'',
       pg_getType = ObjectType ''tag'' None [(''label'', None, ScalarType ''String'')] JArr,
       pg_getOrderings = [],
       pg_getDefaultOrdering = None,
       pg_readPage = (\<lambda>ctx config. Inr \<lparr> page_values = [], hasNext = False, hasPrevious = False \<rparr>),
       pg_count = (\<lambda>ctx cond. Inr 0) \<rparr>"

definition ex_args :: connection_args where
  "ex_args =
     \<lparr> orderBy = Some \<lparr> ordering_name = ''row_id'' \<rparr>,
       before = None, after = None, first_arg = Some 2, last_arg = None,
       condition_arg = JUndefined \<rparr>"

definition ex_collectionForge :: collection_forge where
  "ex_collectionForge = \<lparr> clf_typeForge = ex_typeForge, clf_nodeForge = ex_nodeForge \<rparr>"

definition ex_ann :: jsval where
  "ex_ann = JObj [(''row_id'', JNum 1), (''full_name'', JStr ''Ann''), (''email'', JStr ''ann@example.org'')]"

definition ex_peoplePrimaryKey :: collection_key where
  "ex_peoplePrimaryKey =
     \<lparr> key_getCollection = 1,
       key_getName = ''row_id'',
       key_getType = ScalarType ''Int'',
       key_read = (\<lambda>k. if k = JNum 1 then Inr (Some ex_ann) else Inr None),
       key_getKeyForValue = (\<lambda>v. case v of JObj ((_, k) # _) \<Rightarrow> k | _ \<Rightarrow> JUndefined) \<rparr>"

definition ex_peopleNameKey :: collection_key where
  "ex_peopleNameKey =
     \<lparr> key_getCollection = 1,
       key_getName = ''full_name_and_email'',
       key_getType =
         ObjectType ''person_name_key'' None
           [(''full_name'', None, ScalarType ''String''), (''email'', None, ScalarType ''String'')]
           JArr,
       key_read =
         (\<lambda>k. if k = JArr [JStr ''Ann'', JStr ''ann@example.org''] then Inr (Some ex_ann)
               else Inr None),
       key_getKeyForValue = (\<lambda>v. JUndefined) \<rparr>"

definition ex_people :: collection where
  "ex_people =
     \<lparr> col_ident = 1,
       col_getName = ''people'',
       col_getType = ex_personType,
       col_getPrimaryKey = Some ex_peoplePrimaryKey,
       col_getKeys = [ex_peopleNameKey],
       col_getTailRelations = [] \<rparr>"

text \<open>Two collections that refer to each other: a person has a latest post, a post
  an author.\<close>

definition ex_authorsPrimaryKey :: collection_key where
  "ex_authorsPrimaryKey = ex_peoplePrimaryKey \<lparr> key_getCollection := 2 \<rparr>"

definition ex_postsPrimaryKey :: collection_key where
  "ex_postsPrimaryKey = ex_peoplePrimaryKey \<lparr> key_getCollection := 3, key_read := (\<lambda>k. Inr None) \<rparr>"

definition ex_authors :: collection where
  "ex_authors =
     \<lparr> col_ident = 2,
       col_getName = ''authors'',
       col_getType = ex_personType,
       col_getPrimaryKey = Some ex_authorsPrimaryKey,
       col_getKeys = [],
       col_getTailRelations =
         [\<lparr> rel_getName = ''latest_post'',
            rel_getHeadCollectionKey = ex_postsPrimaryKey,
            rel_getHeadKeyFromTailValue = (\<lambda>v. JUndefined) \<rparr>] \<rparr>"

definition ex_posts :: collection where
  "ex_posts =
     \<lparr> col_ident = 3,
       col_getName = ''posts'',
       col_getType = ObjectType ''post'' None [(''row_id'', None, ScalarType ''Int'')] JArr,
       col_getPrimaryKey = Some ex_postsPrimaryKey,
       col_getKeys = [],
       col_getTailRelations =
         [\<lparr> rel_getName = ''author'',
            rel_getHeadCollectionKey = ex_authorsPrimaryKey,
            rel_getHeadKeyFromTailValue = (\<lambda>v. JUndefined) \<rparr>] \<rparr>"

definition ex_catalog :: catalog where
  "ex_catalog i = (if i = 2 then ex_authors else if i = 3 then ex_posts else ex_people)"

definition ex_state :: forge_state where
  "ex_state = \<lparr> next_ident = 10, getType_cache = Map.empty \<rparr>"

text \<open>A catalog without a cycle: a comment has an author.\<close>

definition ex_comments :: collection where
  "ex_comments =
     \<lparr> col_ident = 4,
       col_getName = ''comments'',
       col_getType = ObjectType ''comment'' None [(''body'', None, ScalarType ''String'')] JArr,
       col_getPrimaryKey = None,
       col_getKeys = [],
       col_getTailRelations =
         [\<lparr> rel_getName = ''author'',
            rel_getHeadCollectionKey = ex_peoplePrimaryKey,
            rel_getHeadKeyFromTailValue = (\<lambda>v. JUndefined) \<rparr>] \<rparr>"

definition ex_acyclicCatalog :: catalog where
  "ex_acyclicCatalog i = (if i = 4 then ex_comments else ex_people)"

text \<open>Cursors: one of another paginator, one of this paginator under another
  ordering, and the one the second edge of \<open>ex_page\<close> gets under \<^verbatim>\<open>row_id\<close>.\<close>

definition ex_foreignCursor :: namespaced_cursor where
  "ex_foreignCursor =
     \<lparr> paginatorName = JStr ''tag'', orderingName = JStr ''label'', cursor = JArr [JStr ''a''] \<rparr>"

definition ex_staleCursor :: namespaced_cursor where
  "ex_staleCursor =
     \<lparr> paginatorName = JStr ''person'', orderingName = JStr ''full_name'',
       cursor = JArr [JStr ''Ann'', JNum 1] \<rparr>"

definition ex_mintedCursor :: namespaced_cursor where
  "ex_mintedCursor =
     \<lparr> paginatorName = JStr ''person'', orderingName = JStr ''row_id'', cursor = JArr [JNum 2] \<rparr>"

section \<open>The codec reads what it writes\<close>

subsection \<open>Base64 and UTF-8\<close>

lemma of_char_less_256: "(of_char c :: nat) < 256"
proof -
  have "(of_char c :: nat) mod 256 = of_char c" by simp
  then show ?thesis
    by (metis mod_less_divisor zero_less_numeral)
qed

lemma base64_alphabet_length: "length base64_alphabet = 64"
  by (simp add: base64_alphabet_def)

lemma base64_alphabet_distinct: "distinct base64_alphabet"
  by (simp add: base64_alphabet_def)

lemma base64_index_char: "i < 64 \<Longrightarrow> base64_index (base64_char i) = Some i"
proof -
  assume i: "i < 64"
  have "map_of (zip base64_alphabet [0..<64]) (base64_alphabet ! i) = Some ([0..<64] ! i)"
  proof (rule map_of_zip_nth)
    show "length base64_alphabet = length [0..<64]"
      by (simp only: base64_alphabet_length length_upt)
    show "distinct base64_alphabet"
      by (rule base64_alphabet_distinct)
    show "i < length [0..<64]"
      using i by (simp only: length_upt)
  qed
  moreover have "[0..<64] ! i = 0 + i"
    using i by (intro nth_upt) simp
  ultimately show ?thesis
    unfolding base64_index_def base64_char_def by (simp only: add_0)
qed

lemma base64_char_not_pad: "i < 64 \<Longrightarrow> base64_char i \<noteq> CHR ''=''"
proof -
  assume i: "i < 64"
  have "CHR ''='' \<notin> set base64_alphabet"
    by (simp add: base64_alphabet_def)
  moreover have "base64_alphabet ! i \<in> set base64_alphabet"
    using i by (simp add: base64_alphabet_length)
  ultimately show ?thesis
    by (auto simp: base64_char_def)
qed

lemma sextets_join:
  fixes n :: nat
  shows "n div 262144 * 262144 + n div 4096 mod 64 * 4096 + n div 64 mod 64 * 64 + n mod 64 = n"
proof -
  have a: "n div 262144 = n div 4096 div 64" "n div 4096 = n div 64 div 64"
    by (simp_all add: div_mult2_eq [symmetric])
  have "n = n div 64 * 64 + n mod 64" by simp
  moreover have "n div 64 = n div 4096 * 64 + n div 64 mod 64"
    unfolding a by simp
  moreover have "n div 4096 = n div 262144 * 64 + n div 4096 mod 64"
    unfolding a by simp
  ultimately show ?thesis by linarith
qed

lemma bytes_split:
  fixes a b c :: nat
  assumes "a < 256" "b < 256" "c < 256"
  shows "(a * 65536 + b * 256 + c) div 65536 = a"
        "(a * 65536 + b * 256 + c) div 256 mod 256 = b"
        "(a * 65536 + b * 256 + c) mod 256 = c"
proof -
  have "b * 256 + c < 65536" using assms by linarith
  then show "(a * 65536 + b * 256 + c) div 65536 = a"
    by (simp add: add.assoc)
  have "(a * 65536 + b * 256 + c) div 256 = a * 256 + b"
    using assms by simp
  then show "(a * 65536 + b * 256 + c) div 256 mod 256 = b"
    using assms by simp
  have "a * 65536 + b * 256 + c = c + (a * 256 + b) * 256"
    by simp
  then have "(a * 65536 + b * 256 + c) mod 256 = c mod 256"
    by (simp only: mod_mult_self1)
  then show "(a * 65536 + b * 256 + c) mod 256 = c"
    using assms by simp
qed

lemma base64_group:
  fixes a b c :: nat
  assumes "a < 256" "b < 256" "c < 256"
  defines "n \<equiv> a * 65536 + b * 256 + c"
  shows "n div 262144 < 64" "n div 4096 mod 64 < 64" "n div 64 mod 64 < 64" "n mod 64 < 64"
    and "n div 262144 * 262144 + n div 4096 mod 64 * 4096 + n div 64 mod 64 * 64 + n mod 64 = n"
proof -
  have "n < 16777216" using assms by simp
  then show "n div 262144 < 64" by simp
  show "n div 4096 mod 64 < 64" "n div 64 mod 64 < 64" "n mod 64 < 64" by simp_all
  show "n div 262144 * 262144 + n div 4096 mod 64 * 4096 + n div 64 mod 64 * 64 + n mod 64 = n"
    by (rule sextets_join)
qed

lemma base64_decode_group3:
  assumes "base64_decode r = Some bs"
  shows "base64_decode
           (let n = (of_char a :: nat) * 65536 + of_char b * 256 + of_char c in
            [base64_char (n div 262144), base64_char (n div 4096 mod 64),
             base64_char (n div 64 mod 64), base64_char (n mod 64)] @ r) = Some (a # b # c # bs)"
proof -
  define x where "x = (of_char a :: nat)"
  define y where "y = (of_char b :: nat)"
  define z where "z = (of_char c :: nat)"
  define n where "n = x * 65536 + y * 256 + z"
  have x: "x < 256" "y < 256" "z < 256"
    by (simp_all add: x_def y_def z_def of_char_less_256)
  have g: "n div 262144 < 64" "n div 4096 mod 64 < 64" "n div 64 mod 64 < 64" "n mod 64 < 64"
    using base64_group(1-4) [OF x] by (simp_all only: n_def)
  have j: "n div 262144 * 262144 + n div 4096 mod 64 * 4096 + n div 64 mod 64 * 64 + n mod 64 = n"
    by (rule sextets_join)
  have "n div 65536 = x" "n div 256 mod 256 = y" "n mod 256 = z"
    using bytes_split [OF x] by (simp_all only: n_def)
  then have "char_of (n div 65536) = a" "char_of (n div 256 mod 256) = b" "char_of (n mod 256) = c"
    by (simp_all only: x_def y_def z_def char_of_char)
  then have c: "char_of (n div 65536) = a" "char_of (n div 256) = b" "char_of n = c"
    by (simp_all only: char_of_mod_256)
  show ?thesis
    unfolding Let_def x_def [symmetric] y_def [symmetric] z_def [symmetric] n_def [symmetric]
    by (simp add: base64_index_char g base64_char_not_pad assms j c)
qed

lemma base64_decode_encode: "base64_decode (base64_encode bs) = Some bs"
proof (induction bs rule: base64_encode.induct)
  case 1
  show ?case by simp
next
  case (2 a)
  define x where "x = (of_char a :: nat)"
  define n where "n = x * 65536"
  have x: "x < 256" by (simp add: x_def of_char_less_256)
  have n': "n = x * 65536 + 0 * 256 + 0" by (simp add: n_def)
  have g: "n div 262144 < 64" "n div 4096 mod 64 < 64"
    using base64_group(1,2) [of x 0 0] x by (simp_all add: n')
  have "n = x * 1024 * 64" by (simp add: n_def)
  then have "n mod 64 = 0" "n div 64 = x * 16 * 64" by simp_all
  then have "n mod 64 = 0" "n div 64 mod 64 = 0" by simp_all
  with sextets_join [of n] have j: "n div 262144 * 262144 + n div 4096 mod 64 * 4096 = n"
    by simp
  have "n div 65536 = x" by (simp add: n_def)
  then have c: "char_of (n div 65536) = a" by (simp add: x_def)
  show ?case
    unfolding base64_encode.simps Let_def x_def [symmetric] n_def [symmetric]
    by (simp add: base64_index_char g j c)
next
  case (3 a b)
  define x where "x = (of_char a :: nat)"
  define y where "y = (of_char b :: nat)"
  define n where "n = x * 65536 + y * 256"
  have x: "x < 256" "y < 256" by (simp_all add: x_def y_def of_char_less_256)
  have n': "n = x * 65536 + y * 256 + 0" by (simp add: n_def)
  have g: "n div 262144 < 64" "n div 4096 mod 64 < 64" "n div 64 mod 64 < 64"
    using base64_group(1,2,3) [of x y 0] x by (simp_all add: n')
  have "n = (x * 1024 + y * 4) * 64" by (simp add: n_def)
  then have "n mod 64 = 0" by simp
  with sextets_join [of n]
  have j: "n div 262144 * 262144 + n div 4096 mod 64 * 4096 + n div 64 mod 64 * 64 = n"
    by simp
  have "n div 65536 = x" "n div 256 mod 256 = y"
    using bytes_split(1,2) [of x y 0] x by (simp_all add: n')
  then have c: "char_of (n div 65536) = a" "char_of (n div 256 mod 256) = b"
    by (simp_all only: x_def y_def char_of_char)
  then have c': "char_of (n div 256) = b"
    by (simp only: char_of_mod_256)
  show ?case
    unfolding base64_encode.simps Let_def x_def [symmetric] y_def [symmetric] n_def [symmetric]
    by (simp add: base64_index_char g base64_char_not_pad j c c')
next
  case (4 a b c r)
  show ?case
    unfolding base64_encode.simps
    using base64_decode_group3 [OF "4.IH"] by simp
qed

lemma utf8_decode_encode_char:
  "utf8_decode (utf8_encode_char c @ r) = map_option (\<lambda>s. c # s) (utf8_decode r)"
proof (cases "(of_char c :: nat) < 128")
  case True
  then show ?thesis by (simp add: utf8_encode_char_def)
next
  case False
  define n where "n = (of_char c :: nat)"
  have n: "128 \<le> n" "n < 256"
    using False of_char_less_256 [of c] by (simp_all add: n_def)
  then have "2 * 64 \<le> n" "n < 4 * 64" by simp_all
  then have "2 \<le> n div 64" "n div 64 < 4"
    by (simp_all only: less_eq_div_iff_mult_less_eq div_less_iff_less_mult zero_less_numeral)
  then have d: "n div 64 = 2 \<or> n div 64 = 3" by linarith
  have l: "(192 + n div 64) mod 256 = 192 + n div 64" "(128 + n mod 64) mod 256 = 128 + n mod 64"
    using d by auto
  have bk: "char_of (n div 64 * 64 + n mod 64) = c"
    by (simp add: n_def)
  show ?thesis
    using False d bk
    by (auto simp: utf8_encode_char_def Let_def n_def [symmetric] l)
qed

lemma utf8_decode_encode: "utf8_decode (utf8_encode s) = Some s"
  unfolding utf8_encode_def
  by (induction s) (simp_all add: utf8_decode_encode_char del: utf8_decode.simps(2))

subsection \<open>Strings\<close>

lemma hex_value_digit_all: "list_all (\<lambda>d. hex_value (hex_digit d) = Some d) [0..<16]"
  by code_simp

lemma hex_value_digit: "d < 16 \<Longrightarrow> hex_value (hex_digit d) = Some d"
  using hex_value_digit_all by (simp add: list_all_iff del: upt.simps)

lemma parse_string_quote_char:
  "parse_string (quote_char c @ t) = map_option (\<lambda>(s, r). (c # s, r)) (parse_string t)"
proof -
  define n where "n = (of_char c :: nat)"
  have c: "c = char_of n" by (simp add: n_def)
  consider "n = 0x22" | "n = 0x5C" | "n = 0x08" | "n = 0x0C" | "n = 0x0A" | "n = 0x0D" | "n = 0x09"
    | "n < 0x20" "n \<notin> {0x08, 0x0C, 0x0A, 0x0D, 0x09}"
    | "n \<ge> 0x20" "n \<noteq> 0x22" "n \<noteq> 0x5C"
    by fastforce
  then show ?thesis
  proof cases
    case 1
    then have "c = CHR 0x22" using c by (simp add: char_of_eq_iff)
    then show ?thesis by (simp add: quote_char_def)
  next
    case 2
    then have "c = CHR 0x5C" using c by (simp add: char_of_eq_iff)
    then show ?thesis by (simp add: quote_char_def)
  next
    case 3
    then have "c = CHR 0x08" using c by (simp add: char_of_eq_iff)
    then show ?thesis by (simp add: quote_char_def)
  next
    case 4
    then have "c = CHR 0x0C" using c by (simp add: char_of_eq_iff)
    then show ?thesis by (simp add: quote_char_def)
  next
    case 5
    then have "c = CHR 0x0A" using c by (simp add: char_of_eq_iff)
    then show ?thesis by (simp add: quote_char_def)
  next
    case 6
    then have "c = CHR 0x0D" using c by (simp add: char_of_eq_iff)
    then show ?thesis by (simp add: quote_char_def)
  next
    case 7
    then have "c = CHR 0x09" using c by (simp add: char_of_eq_iff)
    then show ?thesis by (simp add: quote_char_def)
  next
    case 8
    then have d: "n div 16 < 16" "n mod 16 < 16" by simp_all
    have "16 * (n div 16) + n mod 16 = n" by simp
    then have r: "char_of (16 * (n div 16) + n mod 16) = c" by (simp only: c)
    from 8 have q: "quote_char c =
        [CHR 0x5C, CHR ''u'', CHR ''0'', CHR ''0'', hex_digit (n div 16), hex_digit (n mod 16)]"
      by (auto simp: quote_char_def Let_def n_def [symmetric])
    have z: "hex_value CHR ''0'' = Some 0" by (simp add: hex_value_def)
    show ?thesis
      unfolding q by (simp add: hex_value_digit d z c [symmetric])
  next
    case 9
    then have q: "quote_char c = [c]"
      by (auto simp: quote_char_def Let_def n_def [symmetric])
    from 9 have "c \<noteq> CHR 0x22" "c \<noteq> CHR 0x5C" "\<not> (of_char c :: nat) < 0x20"
      by (auto simp: n_def)
    then show ?thesis
      unfolding q by simp
  qed
qed

lemma parse_string_quote:
  "parse_string (concat (map quote_char s) @ CHR 0x22 # r) = Some (s, r)"
  by (induction s) (simp_all add: parse_string_quote_char del: parse_string.simps(2), simp)

subsection \<open>Numbers\<close>

lemma digit_char_all:
  "list_all (\<lambda>d. is_digit (digit_char d) \<and> (of_char (digit_char d) :: nat) - 48 = d \<and>
                  (digit_char d = CHR ''0'' \<longrightarrow> d = 0)) [0..<10]"
  by code_simp

lemma digit_char_props:
  assumes "d < 10"
  shows "is_digit (digit_char d)" "(of_char (digit_char d) :: nat) - 48 = d"
        "digit_char d = CHR ''0'' \<Longrightarrow> d = 0"
  using digit_char_all assms by (simp_all add: list_all_iff del: upt.simps)

lemma show_nat_digits: "list_all is_digit (show_nat n)"
  by (induction n rule: show_nat.induct)
     (subst show_nat.simps, simp add: digit_char_props)

lemma show_nat_nonempty: "show_nat n \<noteq> []"
  by (subst show_nat.simps) simp

lemma digits_value_snoc: "digits_value (ds @ [d]) = 10 * digits_value ds + (of_char d - 48)"
  by (simp add: digits_value_def)

lemma digits_value_show_nat: "digits_value (show_nat n) = n"
proof (induction n rule: show_nat.induct)
  case (1 n)
  show ?case
  proof (cases "n < 10")
    case True
    then show ?thesis
      by (subst show_nat.simps) (simp add: digits_value_def digit_char_props)
  next
    case False
    with 1 have "digits_value (show_nat (n div 10)) = n div 10" by simp
    with False show ?thesis
      by (subst show_nat.simps) (simp add: digits_value_snoc digit_char_props)
  qed
qed

lemma show_nat_hd: "0 < n \<Longrightarrow> hd (show_nat n) \<noteq> CHR ''0''"
proof (induction n rule: show_nat.induct)
  case (1 n)
  show ?case
  proof (cases "n < 10")
    case True
    with 1(2) show ?thesis
      by (subst show_nat.simps) (auto dest: digit_char_props(3))
  next
    case False
    then have "0 < n div 10" by simp
    with 1(1) False have "hd (show_nat (n div 10)) \<noteq> CHR ''0''" by simp
    with False show ?thesis
      by (subst show_nat.simps) (simp add: show_nat_nonempty)
  qed
qed

lemma show_nat_zero: "show_nat 0 = ''0''"
  by (subst show_nat.simps) (simp add: digit_char_def)

lemma show_nat_no_leading_zero: "\<not> (length (show_nat n) > 1 \<and> hd (show_nat n) = CHR ''0'')"
  by (cases "n = 0") (auto simp: show_nat_zero dest: show_nat_hd)

lemma takeWhile_digits:
  assumes "ends_number r"
  shows "takeWhile is_digit (show_nat n @ r) = show_nat n"
        "dropWhile is_digit (show_nat n @ r) = r"
proof -
  have a: "\<And>x. x \<in> set (show_nat n) \<Longrightarrow> is_digit x"
    using show_nat_digits [of n] by (simp add: list_all_iff)
  have "takeWhile is_digit r = []" "dropWhile is_digit r = r"
    using assms by (cases r; simp add: ends_number_def)+
  then show "takeWhile is_digit (show_nat n @ r) = show_nat n"
            "dropWhile is_digit (show_nat n @ r) = r"
    using a by (simp_all add: takeWhile_append2 dropWhile_append2)
qed

lemma parse_nat_show_nat:
  assumes "ends_number r"
  shows "parse_nat (show_nat n @ r) = Some (n, r)"
proof -
  have "parse_nat (show_nat n @ r) =
          (case r of
             [] \<Rightarrow> Some (n, r)
           | c # _ \<Rightarrow>
               if c = CHR ''.'' \<or> c = CHR ''e'' \<or> c = CHR ''E'' then None else Some (n, r))"
    unfolding parse_nat_def Let_def takeWhile_digits [OF assms] digits_value_show_nat
    using show_nat_no_leading_zero [of n] show_nat_nonempty [of n] by auto
  also have "\<dots> = Some (n, r)"
    using assms by (cases r) (simp_all add: ends_number_def)
  finally show ?thesis .
qed

lemma show_nat_first: "\<exists>c cs. show_nat n = c # cs \<and> is_digit c"
  using show_nat_digits [of n] show_nat_nonempty [of n]
  by (cases "show_nat n") auto

lemma parse_number_show_int:
  assumes "ends_number r"
  shows "parse_number (show_int i @ r) = Some (JNum i, r)"
proof (cases "i < 0")
  case True
  then show ?thesis
    by (simp add: parse_number_def show_int_def parse_nat_show_nat [OF assms])
next
  case False
  obtain c cs where c: "show_nat (nat i) = c # cs" "is_digit c"
    using show_nat_first by blast
  then have "c \<noteq> CHR ''-''" by (auto simp: is_digit_def)
  with False c(1) parse_nat_show_nat [OF assms, of "nat i"] show ?thesis
    by (simp add: parse_number_def show_int_def)
qed

lemma show_int_first:
  "\<exists>c cs. show_int i = c # cs \<and> (c = CHR ''-'' \<or> is_digit c)"
  using show_nat_first [of "nat i"] by (auto simp: show_int_def)

lemma parse_value_number:
  assumes "ends_number r"
  shows "parse_value (Suc n) (show_int i @ r) = Some (JNum i, r)"
proof -
  obtain c cs where c: "show_int i = c # cs" "c = CHR ''-'' \<or> is_digit c"
    using show_int_first by blast
  then have ne: "c \<noteq> CHR ''n''" "c \<noteq> CHR ''t''" "c \<noteq> CHR ''f''" "c \<noteq> CHR 0x22"
      "c \<noteq> CHR ''[''" "c \<noteq> CHR ''{''"
    by (auto simp: is_digit_def)
  have "parse_value (Suc n) (show_int i @ r) = parse_number (show_int i @ r)"
    unfolding c(1) using ne by simp
  then show ?thesis
    by (simp add: parse_number_show_int [OF assms])
qed

subsection \<open>Values\<close>

lemma ends_number_simps [simp]:
  "ends_number []" "ends_number (CHR '','' # r)" "ends_number (CHR '']'' # r)"
  "ends_number (CHR ''}'' # r)"
  by (simp_all add: ends_number_def is_digit_def)

lemma stringify_first:
  "\<exists>c cs. JSON_stringify v = c # cs \<and> c \<noteq> CHR '']'' \<and> c \<noteq> CHR ''}''"
proof (cases v)
  case (JNum i)
  then show ?thesis
    using show_int_first [of i] by (auto simp: is_digit_def)
qed (auto simp: quote_def)

lemma define_property_fresh:
  "k \<notin> fst ` set ps \<Longrightarrow> define_property k v ps = ps @ [(k, v)]"
  by (induction ps) auto

lemma define_properties_foldl:
  "distinct (map fst (acc @ ms)) \<Longrightarrow>
   foldl (\<lambda>ps (k, v). define_property k v ps) acc ms = acc @ ms"
proof (induction ms arbitrary: acc)
  case Nil
  show ?case by simp
next
  case (Cons m ms)
  obtain k v where m: "m = (k, v)" by (cases m)
  from Cons.prems have "k \<notin> fst ` set acc" by (auto simp: m)
  then have "define_property k v acc = acc @ [(k, v)]" by (rule define_property_fresh)
  moreover from Cons.prems have "distinct (map fst ((acc @ [(k, v)]) @ ms))" by (simp add: m)
  ultimately show ?case
    using Cons.IH [of "acc @ [(k, v)]"] by (simp add: m)
qed

lemma define_properties_distinct:
  "distinct (map fst ps) \<Longrightarrow> define_properties ps = ps"
  using define_properties_foldl [of "[]" ps] by (simp add: define_properties_def)

lemma parse_elements_join:
  assumes "vs \<noteq> []"
      and "\<And>v n r. v \<in> set vs \<Longrightarrow> ends_number r \<Longrightarrow> length (JSON_stringify v) \<le> n \<Longrightarrow>
             parse_value n (JSON_stringify v @ r) = Some (v, r)"
      and "length (join_comma (map JSON_stringify vs)) < n"
  shows "parse_elements n (join_comma (map JSON_stringify vs) @ CHR '']'' # r) = Some (vs, r)"
  using assms
proof (induction vs arbitrary: n rule: list_nonempty_induct)
  case (single v)
  from single(2) obtain m where n: "n = Suc m" and m: "length (JSON_stringify v) \<le> m"
    by (cases n) auto
  have "parse_value m (JSON_stringify v @ CHR '']'' # r) = Some (v, CHR '']'' # r)"
    by (rule single(1)) (simp_all add: m)
  then show ?case by (simp add: n)
next
  case (cons v vs)
  obtain w ws where vs: "vs = w # ws" using cons(1) by (cases vs) auto
  let ?rest = "join_comma (map JSON_stringify vs) @ CHR '']'' # r"
  from cons(4) obtain m where n: "n = Suc m"
    and m: "length (JSON_stringify v) \<le> m" "length (join_comma (map JSON_stringify vs)) < m"
    by (cases n) (auto simp: vs)
  have "parse_value m (JSON_stringify v @ CHR '','' # ?rest) = Some (v, CHR '','' # ?rest)"
    by (rule cons(3)) (simp_all add: m)
  moreover have "parse_elements m ?rest = Some (vs, r)"
    by (rule cons(2)) (auto intro: cons(3) simp: m)
  ultimately show ?case
    by (simp add: n vs)
qed

lemma parse_members_join:
  assumes "ps \<noteq> []"
      and "\<And>k v n r. (k, v) \<in> set ps \<Longrightarrow> ends_number r \<Longrightarrow> length (JSON_stringify v) \<le> n \<Longrightarrow>
             parse_value n (JSON_stringify v @ r) = Some (v, r)"
      and "length (join_comma (map (\<lambda>(k, v). quote k @ CHR '':'' # JSON_stringify v) ps)) < n"
  shows "parse_members n
           (join_comma (map (\<lambda>(k, v). quote k @ CHR '':'' # JSON_stringify v) ps) @ CHR ''}'' # r)
         = Some (ps, r)"
  using assms
proof (induction ps arbitrary: n rule: list_nonempty_induct)
  case (single p)
  obtain k v where p: "p = (k, v)" by (cases p)
  from single(2) obtain m where n: "n = Suc m" and m: "length (JSON_stringify v) \<le> m"
    by (cases n) (auto simp: p)
  have "parse_value m (JSON_stringify v @ CHR ''}'' # r) = Some (v, CHR ''}'' # r)"
    by (rule single(1) [of k]) (simp_all add: m p)
  then show ?case
    by (simp add: n p quote_def parse_string_quote)
next
  case (cons p ps)
  obtain k v where p: "p = (k, v)" by (cases p)
  obtain q qs where ps: "ps = q # qs" using cons(1) by (cases ps) auto
  let ?M = "\<lambda>(k, v). quote k @ CHR '':'' # JSON_stringify v"
  let ?rest = "join_comma (map ?M ps) @ CHR ''}'' # r"
  from cons(4) obtain m where n: "n = Suc m"
    and m: "length (JSON_stringify v) \<le> m" "length (join_comma (map ?M ps)) < m"
    by (cases n) (auto simp: ps p)
  have "parse_value m (JSON_stringify v @ CHR '','' # ?rest) = Some (v, CHR '','' # ?rest)"
    by (rule cons(3) [of k]) (simp_all add: m p)
  moreover have "parse_members m ?rest = Some (ps, r)"
    by (rule cons(2)) (auto intro: cons(3) simp: m)
  ultimately show ?case
    by (simp add: n p ps quote_def parse_string_quote)
qed

lemma parse_value_stringify:
  "json_value v \<Longrightarrow> ends_number r \<Longrightarrow> length (JSON_stringify v) \<le> n \<Longrightarrow>
   parse_value n (JSON_stringify v @ r) = Some (v, r)"
proof (induction v arbitrary: n r)
  case JUndefined
  then show ?case by simp
next
  case JNull
  then obtain m where "n = Suc m" by (cases n) auto
  then show ?case by simp
next
  case (JBool b)
  then obtain m where "n = Suc m" by (cases n) (auto split: if_splits)
  then show ?case by simp
next
  case (JNum i)
  obtain c cs where "show_int i = c # cs" using show_int_first by blast
  with JNum(3) obtain m where n: "n = Suc m" by (cases n) auto
  show ?case
    unfolding n JSON_stringify.simps using JNum(2) by (rule parse_value_number)
next
  case (JStr s)
  then obtain m where "n = Suc m" by (cases n) (auto simp: quote_def)
  then show ?case by (simp add: quote_def parse_string_quote)
next
  case (JArr vs)
  from JArr(4) obtain m where n: "n = Suc m"
    and m: "length (join_comma (map JSON_stringify vs)) < m"
    by (cases n) auto
  show ?case
  proof (cases "vs = []")
    case True
    then show ?thesis by (simp add: n)
  next
    case False
    have e: "parse_elements m (join_comma (map JSON_stringify vs) @ CHR '']'' # r) = Some (vs, r)"
    proof (rule parse_elements_join [OF False _ m])
      fix v n r
      assume "v \<in> set vs" "ends_number r" "length (JSON_stringify v) \<le> n"
      moreover from \<open>v \<in> set vs\<close> JArr(2) have "json_value v" by (simp add: list_all_iff)
      ultimately show "parse_value n (JSON_stringify v @ r) = Some (v, r)"
        by (intro JArr(1))
    qed
    obtain w ws where vs: "vs = w # ws" using False by (cases vs) auto
    obtain c cs where c: "JSON_stringify w = c # cs" "c \<noteq> CHR '']''"
      using stringify_first by blast
    have "\<exists>t. join_comma (map JSON_stringify vs) @ CHR '']'' # r = c # t"
      by (cases ws) (simp_all add: vs c)
    then obtain t where t: "join_comma (map JSON_stringify vs) @ CHR '']'' # r = c # t" ..
    show ?thesis
      using e c(2) unfolding t by (simp add: n t)
  qed
next
  case (JObj ps)
  let ?M = "\<lambda>(k, v). quote k @ CHR '':'' # JSON_stringify v"
  from JObj(2) have f: "filter (\<lambda>(k, v). v \<noteq> JUndefined) ps = ps"
    by (auto simp: list_all_iff filter_id_conv)
  from JObj(2) have d: "define_properties ps = ps"
    by (simp add: define_properties_distinct)
  from JObj(4) obtain m where n: "n = Suc m"
    and m: "length (join_comma (map ?M ps)) < m"
    by (cases n) (auto simp: f)
  show ?case
  proof (cases "ps = []")
    case True
    then show ?thesis by (simp add: n)
  next
    case False
    have e: "parse_members m (join_comma (map ?M ps) @ CHR ''}'' # r) = Some (ps, r)"
    proof (rule parse_members_join [OF False _ m])
      fix k v n r
      assume "(k, v) \<in> set ps" "ends_number r" "length (JSON_stringify v) \<le> n"
      moreover from \<open>(k, v) \<in> set ps\<close> JObj(2) have "json_value v"
        by (auto simp: list_all_iff)
      ultimately show "parse_value n (JSON_stringify v @ r) = Some (v, r)"
        by (intro JObj(1) [of "(k, v)"]) simp_all
    qed
    obtain q qs where ps: "ps = q # qs" using False by (cases ps) auto
    have "\<exists>t. join_comma (map ?M ps) @ CHR ''}'' # r = CHR 0x22 # t"
      by (cases qs; cases q) (simp_all add: ps quote_def)
    then obtain t where t: "join_comma (map ?M ps) @ CHR ''}'' # r = CHR 0x22 # t" ..
    show ?thesis
      using e unfolding t by (simp add: n f t d)
  qed
qed

lemma JSON_parse_stringify: "json_value v \<Longrightarrow> JSON_parse (JSON_stringify v) = Some v"
  using parse_value_stringify [of v "[]" "length (JSON_stringify v)"]
  by (simp add: JSON_parse_def)

subsection \<open>Cursors\<close>

lemma destructure3_array: "destructure3 (JArr [p, ordn, c]) = Inr (p, ordn, c)"
  by (simp add: destructure3_def)

lemma wellformed_cursor_json:
  "wellformed_cursor nc \<Longrightarrow> json_value (JArr [paginatorName nc, orderingName nc, cursor nc])"
  by (auto simp: wellformed_cursor_def split: jsval.splits)





lemma deserialize_serialize:
  assumes "json_value (JArr [paginatorName nc, orderingName nc, cursor nc])"
  shows "deserializeCursor (serializeCursor nc) = Some (Inr nc)"
  using JSON_parse_stringify [OF assms]
  by (simp add: deserializeCursor_def serializeCursor_def base64_decode_encode utf8_decode_encode
        destructure3_array del: JSON_stringify.simps)



section \<open>The connection resolver\<close>

lemma createField_resolve_paginator_guard:
  assumes "paginator_mismatch (pg_getName P) (before args) \<or>
           paginator_mismatch (pg_getName P) (after args)"
  shows "createField_resolve P cc source args ctx log = (Inl BeforePaginatorMismatch, log) \<or>
         createField_resolve P cc source args ctx log = (Inl AfterPaginatorMismatch, log)"
  using assms by (auto simp: createField_resolve_def Let_def)

lemma createField_resolve_ordering_guard:
  assumes "\<not> paginator_mismatch (pg_getName P) (before args)"
      and "\<not> paginator_mismatch (pg_getName P) (after args)"
      and "ordering_mismatch (orderBy args) (before args) \<or>
           ordering_mismatch (orderBy args) (after args)"
  shows "createField_resolve P cc source args ctx log = (Inl BeforeOrderingMismatch, log) \<or>
         createField_resolve P cc source args ctx log = (Inl AfterOrderingMismatch, log)"
  using assms by (auto simp: createField_resolve_def Let_def)

lemma createField_resolve_passes:
  assumes "\<not> paginator_mismatch (pg_getName P) (before args)"
      and "\<not> paginator_mismatch (pg_getName P) (after args)"
      and "\<not> ordering_mismatch (orderBy args) (before args)"
      and "\<not> ordering_mismatch (orderBy args) (after args)"
  shows "\<exists>config. snd (createField_resolve P cc source args ctx log) =
           log @ [(pg_getName P, config)]"
  using assms by (auto simp: createField_resolve_def Let_def split: sum.splits)

lemma createField_resolve_Inr:
  assumes "createField_resolve P cc source args ctx log = (Inr conn, log')"
  shows "conn_paginator conn = P \<and> conn_ordering conn = orderBy args"
  using assms by (auto simp: createField_resolve_def Let_def split: sum.splits if_splits)

lemma createField_Inr_resolve:
  assumes "createField m forge P cc heap = (Inr fld, heap')"
  shows "cfield_resolve fld = createField_resolve P cc"
  using assms by (auto simp: createField_def Let_def split: sum.splits if_splits prod.splits)

lemmas ex_defs =
  ex_modules_def ex_nodeInterface_def ex_nodeForge_def ex_typeForge_def
  ex_connectionForge_def ex_personType_def ex_page_def ex_paginator_def
  ex_tagPaginator_def ex_args_def ex_foreignCursor_def

lemmas forge_defs =
  createField_def createConnectionType_def createEdgeType_def createOrderByEnumType_def
  indexOf_is_minus1_def buildObject_def List.map_filter_def

lemma ex_createField:
  "\<exists>fld. createField ex_modules ex_connectionForge ex_paginator None 10 = (Inr fld, 13)"
  by (simp add: forge_defs ex_defs Let_def)

lemma ex_resolve:
  "createField_resolve ex_paginator None JUndefined ex_args JUndefined [] =
     (Inr \<lparr> conn_paginator = ex_paginator, conn_ordering = orderBy ex_args,
            conn_condition = ConditionTrue, conn_page = ex_page \<rparr>,
      [(''person'',
        \<lparr> beforeCursor = JUndefined, afterCursor = JUndefined, pc_first = Some 2,
          pc_last = None, pc_ordering = orderBy ex_args, pc_condition = ConditionTrue \<rparr>)])"
  by (simp add: createField_resolve_def paginator_mismatch_def ordering_mismatch_def
        cursor_of_def Let_def ex_paginator_def ex_args_def)

text \<open>
  Claim C2. A connection field forged for a paginator is resolved with a \<^verbatim>\<open>before\<close>
  or an \<^verbatim>\<open>after\<close> cursor whose paginator name is not the paginator's: the resolver
  throws one of the two paginator-mismatch errors, and the log of \<^verbatim>\<open>readPage\<close>
  calls is what it was, so \<^verbatim>\<open>readPage\<close> was not called.
\<close>

theorem C2_paginator_mismatch_rejected:
  assumes "createField m forge P cc heap = (Inr fld, heap')"
      and "(\<exists>c. before args = Some c \<and> paginatorName c \<noteq> JStr (pg_getName P)) \<or>
           (\<exists>c. after args = Some c \<and> paginatorName c \<noteq> JStr (pg_getName P))"
  shows "(fst (cfield_resolve fld source args ctx log) = Inl BeforePaginatorMismatch \<or>
          fst (cfield_resolve fld source args ctx log) = Inl AfterPaginatorMismatch) \<and>
         snd (cfield_resolve fld source args ctx log) = log"
proof -
  have "paginator_mismatch (pg_getName P) (before args) \<or>
        paginator_mismatch (pg_getName P) (after args)"
    using assms(2) by (auto simp: paginator_mismatch_def)
  from createField_resolve_paginator_guard [OF this, of cc source ctx log]
  show ?thesis
    unfolding createField_Inr_resolve [OF assms(1)] by auto
qed

theorem C2_paginator_mismatch_rejected_witness:
  "before (ex_args \<lparr> after := Some ex_foreignCursor \<rparr>) = None \<and>
   after (ex_args \<lparr> after := Some ex_foreignCursor \<rparr>) = Some ex_foreignCursor \<and>
   paginatorName ex_foreignCursor \<noteq> JStr (pg_getName ex_paginator) \<and>
   (let fld = projr (fst (createField ex_modules ex_connectionForge ex_paginator None 10))
    in cfield_resolve fld JUndefined (ex_args \<lparr> after := Some ex_foreignCursor \<rparr>) JUndefined []
       = (Inl AfterPaginatorMismatch, []))"
proof -
  obtain fld where fld: "createField ex_modules ex_connectionForge ex_paginator None 10 = (Inr fld, 13)"
    using ex_createField by blast
  have h: "(\<exists>c. before (ex_args \<lparr> after := Some ex_foreignCursor \<rparr>) = Some c \<and>
             paginatorName c \<noteq> JStr (pg_getName ex_paginator)) \<or>
           (\<exists>c. after (ex_args \<lparr> after := Some ex_foreignCursor \<rparr>) = Some c \<and>
             paginatorName c \<noteq> JStr (pg_getName ex_paginator))"
    by (simp add: ex_defs)
  have r: "cfield_resolve fld = createField_resolve ex_paginator None"
    using fld by (rule createField_Inr_resolve)
  have "fst (createField_resolve ex_paginator None JUndefined
               (ex_args \<lparr> after := Some ex_foreignCursor \<rparr>) JUndefined []) \<noteq> Inl BeforePaginatorMismatch"
    by (simp add: createField_resolve_def paginator_mismatch_def ex_defs)
  with C2_paginator_mismatch_rejected [OF fld h, of JUndefined JUndefined "[]"] fld r
  show ?thesis
    by (auto simp: ex_defs prod_eq_iff)
qed

text \<open>
  Claim C3, as stated, fails: a cursor of another paginator minted under another
  ordering has an ordering name that differs from the resolved one, and the resolver
  throws the paginator-mismatch error, which it tests first, not the ordering-mismatch
  error.
\<close>

theorem C3_ordering_mismatch_counterexample:
  "before (ex_args \<lparr> before := Some ex_foreignCursor \<rparr>) = Some ex_foreignCursor \<and>
   orderingName ex_foreignCursor \<noteq>
     orderingName_of (orderBy (ex_args \<lparr> before := Some ex_foreignCursor \<rparr>)) \<and>
   fst (createField_resolve ex_paginator None JUndefined
          (ex_args \<lparr> before := Some ex_foreignCursor \<rparr>) JUndefined []) \<noteq> Inl BeforeOrderingMismatch \<and>
   fst (createField_resolve ex_paginator None JUndefined
          (ex_args \<lparr> before := Some ex_foreignCursor \<rparr>) JUndefined []) \<noteq> Inl AfterOrderingMismatch \<and>
   createField_resolve ex_paginator None JUndefined
     (ex_args \<lparr> before := Some ex_foreignCursor \<rparr>) JUndefined [] = (Inl BeforePaginatorMismatch, [])"
  by (simp add: createField_resolve_def paginator_mismatch_def orderingName_of_def ex_defs)

text \<open>
  Claim C3, amended. When every cursor that is present carries the paginator's name
  and the ordering name of one of them differs from the resolved \<^verbatim>\<open>orderBy\<close>'s
  (\<^verbatim>\<open>null\<close> for none), the resolver throws one of the two ordering-mismatch errors
  and \<^verbatim>\<open>readPage\<close> is not called.
\<close>

theorem C3_ordering_mismatch_rejected:
  assumes "createField m forge P cc heap = (Inr fld, heap')"
      and "\<forall>c. before args = Some c \<or> after args = Some c \<longrightarrow> paginatorName c = JStr (pg_getName P)"
      and "(\<exists>c. before args = Some c \<and> orderingName c \<noteq> orderingName_of (orderBy args)) \<or>
           (\<exists>c. after args = Some c \<and> orderingName c \<noteq> orderingName_of (orderBy args))"
  shows "(fst (cfield_resolve fld source args ctx log) = Inl BeforeOrderingMismatch \<or>
          fst (cfield_resolve fld source args ctx log) = Inl AfterOrderingMismatch) \<and>
         snd (cfield_resolve fld source args ctx log) = log"
proof -
  have p: "\<not> paginator_mismatch (pg_getName P) (before args)"
          "\<not> paginator_mismatch (pg_getName P) (after args)"
    using assms(2) by (auto simp: paginator_mismatch_def split: option.splits)
  have "ordering_mismatch (orderBy args) (before args) \<or>
        ordering_mismatch (orderBy args) (after args)"
    using assms(3) by (auto simp: ordering_mismatch_def)
  from createField_resolve_ordering_guard [OF p this, of cc source ctx log]
  show ?thesis
    unfolding createField_Inr_resolve [OF assms(1)] by auto
qed

theorem C3_ordering_mismatch_rejected_witness:
  "before (ex_args \<lparr> before := Some ex_staleCursor \<rparr>) = Some ex_staleCursor \<and>
   after (ex_args \<lparr> before := Some ex_staleCursor \<rparr>) = None \<and>
   paginatorName ex_staleCursor = JStr (pg_getName ex_paginator) \<and>
   orderingName ex_staleCursor \<noteq>
     orderingName_of (orderBy (ex_args \<lparr> before := Some ex_staleCursor \<rparr>)) \<and>
   (let fld = projr (fst (createField ex_modules ex_connectionForge ex_paginator None 10))
    in cfield_resolve fld JUndefined (ex_args \<lparr> before := Some ex_staleCursor \<rparr>) JUndefined []
       = (Inl BeforeOrderingMismatch, []))"
proof -
  obtain fld where fld: "createField ex_modules ex_connectionForge ex_paginator None 10 = (Inr fld, 13)"
    using ex_createField by blast
  have h1: "\<forall>c. before (ex_args \<lparr> before := Some ex_staleCursor \<rparr>) = Some c \<or>
                after (ex_args \<lparr> before := Some ex_staleCursor \<rparr>) = Some c \<longrightarrow>
                paginatorName c = JStr (pg_getName ex_paginator)"
    by (simp add: ex_defs ex_staleCursor_def)
  have h2: "(\<exists>c. before (ex_args \<lparr> before := Some ex_staleCursor \<rparr>) = Some c \<and>
              orderingName c \<noteq> orderingName_of (orderBy (ex_args \<lparr> before := Some ex_staleCursor \<rparr>))) \<or>
            (\<exists>c. after (ex_args \<lparr> before := Some ex_staleCursor \<rparr>) = Some c \<and>
              orderingName c \<noteq> orderingName_of (orderBy (ex_args \<lparr> before := Some ex_staleCursor \<rparr>)))"
    by (simp add: ex_defs ex_staleCursor_def orderingName_of_def)
  have r: "cfield_resolve fld = createField_resolve ex_paginator None"
    using fld by (rule createField_Inr_resolve)
  have "fst (createField_resolve ex_paginator None JUndefined
               (ex_args \<lparr> before := Some ex_staleCursor \<rparr>) JUndefined []) \<noteq> Inl AfterOrderingMismatch"
    by (simp add: createField_resolve_def paginator_mismatch_def ordering_mismatch_def
          orderingName_of_def ex_defs ex_staleCursor_def)
  with C3_ordering_mismatch_rejected [OF fld h1 h2, of JUndefined JUndefined "[]"] fld r
  show ?thesis
    by (auto simp: ex_defs ex_staleCursor_def orderingName_of_def prod_eq_iff)
qed

section \<open>The cursors of a resolved connection\<close>

lemma minted_cursor_names:
  assumes "c \<in> set (map (edge_cursor_resolve P) (connection_edges_resolve conn)) \<or>
           pageInfo_startCursor_resolve conn = Inr c \<or>
           pageInfo_endCursor_resolve conn = Inr c"
      and "conn_paginator conn = P"
  shows "paginatorName c = JStr (pg_getName P) \<and>
         orderingName c = orderingName_of (conn_ordering conn)"
  using assms
  by (auto simp: edge_cursor_resolve_def connection_edges_resolve_def
        pageInfo_startCursor_resolve_def pageInfo_endCursor_resolve_def Let_def
      split: list.splits if_splits)

text \<open>
  On a page with values, \<^verbatim>\<open>startCursor\<close> and \<^verbatim>\<open>endCursor\<close> are the
  namespaced cursors of the first and of the last value.
\<close>

theorem pageInfo_cursors_nonempty:
  assumes "page_values (conn_page conn) \<noteq> []"
  shows "pageInfo_startCursor_resolve conn =
           Inr \<lparr> paginatorName = JStr (pg_getName (conn_paginator conn)),
                 orderingName = orderingName_of (conn_ordering conn),
                 cursor = item_cursor (hd (page_values (conn_page conn))) \<rparr> \<and>
         pageInfo_endCursor_resolve conn =
           Inr \<lparr> paginatorName = JStr (pg_getName (conn_paginator conn)),
                 orderingName = orderingName_of (conn_ordering conn),
                 cursor = item_cursor (last (page_values (conn_page conn))) \<rparr>"
  using assms
  by (auto simp: pageInfo_startCursor_resolve_def pageInfo_endCursor_resolve_def Let_def
        last_conv_nth split: list.splits)

theorem pageInfo_cursors_nonempty_witness:
  "page_values ex_page \<noteq> [] \<and>
   pageInfo_startCursor_resolve
     \<lparr> conn_paginator = ex_paginator, conn_ordering = None,
       conn_condition = ConditionTrue, conn_page = ex_page \<rparr> =
     Inr \<lparr> paginatorName = JStr ''person'', orderingName = JNull, cursor = JArr [JNum 1] \<rparr> \<and>
   pageInfo_endCursor_resolve
     \<lparr> conn_paginator = ex_paginator, conn_ordering = None,
       conn_condition = ConditionTrue, conn_page = ex_page \<rparr> =
     Inr \<lparr> paginatorName = JStr ''person'', orderingName = JNull, cursor = JArr [JNum 2] \<rparr>"
proof -
  have h: "page_values (conn_page
     \<lparr> conn_paginator = ex_paginator, conn_ordering = None,
       conn_condition = ConditionTrue, conn_page = ex_page \<rparr>) \<noteq> []"
    by (simp add: ex_page_def)
  from pageInfo_cursors_nonempty [OF h] h show ?thesis
    by (simp add: ex_page_def ex_paginator_def orderingName_of_def)
qed

text \<open>
  Claim C6. On a connection whose page has no values the \<^verbatim>\<open>startCursor\<close> and
  \<^verbatim>\<open>endCursor\<close> resolvers both throw a TypeError, where the claim has them resolve
  to an absent value: the resolvers read \<^verbatim>\<open>.cursor\<close> of an element that is not
  there.
\<close>

theorem C6_pageInfo_cursors_empty_page:
  "pageInfo_startCursor_resolve
     \<lparr> conn_paginator = P, conn_ordering = ord, conn_condition = cond,
       conn_page = \<lparr> page_values = [], hasNext = hn, hasPrevious = hp \<rparr> \<rparr> = Inl TypeError \<and>
   pageInfo_endCursor_resolve
     \<lparr> conn_paginator = P, conn_ordering = ord, conn_condition = cond,
       conn_page = \<lparr> page_values = [], hasNext = hn, hasPrevious = hp \<rparr> \<rparr> = Inl TypeError"
  by (simp add: pageInfo_startCursor_resolve_def pageInfo_endCursor_resolve_def)

text \<open>
  Claim C10. Every cursor a resolved connection mints (the cursor of one of its edges,
  its \<^verbatim>\<open>startCursor\<close>, its \<^verbatim>\<open>endCursor\<close>) carries the paginator's name and the
  name of the resolved ordering, \<^verbatim>\<open>null\<close> for none. Replayed as \<^verbatim>\<open>before\<close>,
  as \<^verbatim>\<open>after\<close> or as both against the same field with the same \<^verbatim>\<open>orderBy\<close>,
  it passes the four guards: the resolver goes on to call \<^verbatim>\<open>readPage\<close>.
\<close>

theorem C10_minted_cursors_replay:
  assumes "createField m forge P cc heap = (Inr fld, heap')"
      and "cfield_resolve fld source args ctx log = (Inr conn, log')"
      and "c \<in> set (map (edge_cursor_resolve P) (connection_edges_resolve conn)) \<or>
           pageInfo_startCursor_resolve conn = Inr c \<or>
           pageInfo_endCursor_resolve conn = Inr c"
      and "orderBy args' = orderBy args"
      and "(before args' = Some c \<and> after args' = None) \<or>
           (before args' = None \<and> after args' = Some c) \<or>
           (before args' = Some c \<and> after args' = Some c)"
  shows "paginatorName c = JStr (pg_getName P) \<and>
         orderingName c = orderingName_of (orderBy args) \<and>
         (\<exists>config. snd (cfield_resolve fld source' args' ctx' log2) =
                     log2 @ [(pg_getName P, config)])"
proof -
  have r: "cfield_resolve fld = createField_resolve P cc"
    using assms(1) by (rule createField_Inr_resolve)
  have conn: "conn_paginator conn = P" "conn_ordering conn = orderBy args"
    using createField_resolve_Inr [of P cc source args ctx log conn log'] assms(2) r by simp_all
  have names: "paginatorName c = JStr (pg_getName P)"
              "orderingName c = orderingName_of (orderBy args)"
    using minted_cursor_names [OF assms(3) conn(1)] conn(2) by simp_all
  have "\<not> paginator_mismatch (pg_getName P) (before args')"
       "\<not> paginator_mismatch (pg_getName P) (after args')"
       "\<not> ordering_mismatch (orderBy args') (before args')"
       "\<not> ordering_mismatch (orderBy args') (after args')"
    using assms(4,5) names by (auto simp: paginator_mismatch_def ordering_mismatch_def)
  from createField_resolve_passes [OF this, of cc source' ctx' log2] names r
  show ?thesis by simp
qed

theorem C10_minted_cursors_replay_witness:
  "ex_mintedCursor \<in> set (map (edge_cursor_resolve ex_paginator)
       (connection_edges_resolve
          \<lparr> conn_paginator = ex_paginator, conn_ordering = orderBy ex_args,
            conn_condition = ConditionTrue, conn_page = ex_page \<rparr>)) \<and>
   paginatorName ex_mintedCursor = JStr (pg_getName ex_paginator) \<and>
   orderingName ex_mintedCursor = orderingName_of (orderBy ex_args) \<and>
   snd (createField_resolve ex_paginator None JUndefined
          (ex_args \<lparr> after := Some ex_mintedCursor \<rparr>) JUndefined []) =
     [(''person'',
       \<lparr> beforeCursor = JUndefined, afterCursor = JArr [JNum 2], pc_first = Some 2,
         pc_last = None, pc_ordering = orderBy ex_args, pc_condition = ConditionTrue \<rparr>)]"
proof -
  obtain fld where fld: "createField ex_modules ex_connectionForge ex_paginator None 10 = (Inr fld, 13)"
    using ex_createField by blast
  have r: "cfield_resolve fld = createField_resolve ex_paginator None"
    using fld by (rule createField_Inr_resolve)
  let ?conn = "\<lparr> conn_paginator = ex_paginator, conn_ordering = orderBy ex_args,
                  conn_condition = ConditionTrue, conn_page = ex_page \<rparr>"
  have h2: "cfield_resolve fld JUndefined ex_args JUndefined [] =
              (Inr ?conn,
               [(''person'',
                 \<lparr> beforeCursor = JUndefined, afterCursor = JUndefined, pc_first = Some 2,
                   pc_last = None, pc_ordering = orderBy ex_args, pc_condition = ConditionTrue \<rparr>)])"
    unfolding r by (rule ex_resolve)
  have h3: "ex_mintedCursor \<in> set (map (edge_cursor_resolve ex_paginator) (connection_edges_resolve ?conn)) \<or>
            pageInfo_startCursor_resolve ?conn = Inr ex_mintedCursor \<or>
            pageInfo_endCursor_resolve ?conn = Inr ex_mintedCursor"
    by (simp add: edge_cursor_resolve_def connection_edges_resolve_def ex_mintedCursor_def
          ex_page_def ex_args_def ex_paginator_def orderingName_of_def)
  have h4: "orderBy (ex_args \<lparr> after := Some ex_mintedCursor \<rparr>) = orderBy ex_args"
    by simp
  have h5: "(before (ex_args \<lparr> after := Some ex_mintedCursor \<rparr>) = Some ex_mintedCursor \<and>
             after (ex_args \<lparr> after := Some ex_mintedCursor \<rparr>) = None) \<or>
            (before (ex_args \<lparr> after := Some ex_mintedCursor \<rparr>) = None \<and>
             after (ex_args \<lparr> after := Some ex_mintedCursor \<rparr>) = Some ex_mintedCursor) \<or>
            (before (ex_args \<lparr> after := Some ex_mintedCursor \<rparr>) = Some ex_mintedCursor \<and>
             after (ex_args \<lparr> after := Some ex_mintedCursor \<rparr>) = Some ex_mintedCursor)"
    by (simp add: ex_args_def)
  have ev: "snd (createField_resolve ex_paginator None JUndefined
          (ex_args \<lparr> after := Some ex_mintedCursor \<rparr>) JUndefined []) =
     [(''person'',
       \<lparr> beforeCursor = JUndefined, afterCursor = JArr [JNum 2], pc_first = Some 2,
         pc_last = None, pc_ordering = orderBy ex_args, pc_condition = ConditionTrue \<rparr>)]"
    by (simp add: createField_resolve_def paginator_mismatch_def ordering_mismatch_def
        cursor_of_def Let_def ex_paginator_def ex_args_def ex_mintedCursor_def orderingName_of_def)
  from C10_minted_cursors_replay [OF fld h2 h3 h4 h5, of JUndefined JUndefined "[]"] h3 ev
  show ?thesis
    by (simp add: edge_cursor_resolve_def connection_edges_resolve_def ex_mintedCursor_def
          ex_page_def ex_args_def ex_paginator_def orderingName_of_def)
qed

section \<open>Building a connection field\<close>

text \<open>
  Claim C9. When the object type forged for the paginator's value type does not list
  the Node interface, \<^verbatim>\<open>createField\<close> throws while the schema is built: it
  returns the error and no field, and has created no type.
\<close>

theorem C9_node_interface_required:
  assumes "getInterfaces (getNamedType (getOutputType (cf_typeForge forge) (pg_getType P))) = Inr ifaces"
      and "iface_ident (getInterfaceType (cf_nodeForge forge)) \<notin> set (map iface_ident ifaces)"
  shows "createField m forge P cc heap = (Inl NodeInterfaceError, heap)"
  using assms by (simp add: createField_def indexOf_is_minus1_def Let_def)

theorem C9_node_interface_required_witness:
  "getInterfaces (getNamedType (getOutputType (cf_typeForge ex_connectionForge)
      (pg_getType ex_tagPaginator))) = Inr [] \<and>
   createField ex_modules ex_connectionForge ex_tagPaginator None 10 = (Inl NodeInterfaceError, 10)"
proof -
  have h1: "getInterfaces (getNamedType (getOutputType (cf_typeForge ex_connectionForge)
      (pg_getType ex_tagPaginator))) = Inr []"
    by (simp add: ex_defs)
  have h2: "iface_ident (getInterfaceType (cf_nodeForge ex_connectionForge)) \<notin> set (map iface_ident [])"
    by simp
  from C9_node_interface_required [OF h1 h2, of ex_modules None 10] h1
  show ?thesis by simp
qed

text \<open>
  Claim C5, as stated, fails: two calls of \<^verbatim>\<open>createField\<close> for one paginator
  return two connection types of the same name and different identities. Nothing in
  \<^verbatim>\<open>ConnectionForge\<close> is memoized.
\<close>

theorem C5_connection_types_not_memoized_counterexample:
  "\<not> isl (fst (createField ex_modules ex_connectionForge ex_paginator None 10)) \<and>
   snd (createField ex_modules ex_connectionForge ex_paginator None 10) = 13 \<and>
   \<not> isl (fst (createField ex_modules ex_connectionForge ex_paginator None 13)) \<and>
   type_ident (cfield_type (projr (fst (createField ex_modules ex_connectionForge ex_paginator None 10))))
     = Some 11 \<and>
   type_ident (cfield_type (projr (fst (createField ex_modules ex_connectionForge ex_paginator None 13))))
     = Some 14 \<and>
   type_name (cfield_type (projr (fst (createField ex_modules ex_connectionForge ex_paginator None 10))))
     = ''PersonConnection'' \<and>
   type_name (cfield_type (projr (fst (createField ex_modules ex_connectionForge ex_paginator None 13))))
     = ''PersonConnection'' \<and>
   cfield_type (projr (fst (createField ex_modules ex_connectionForge ex_paginator None 10))) \<noteq>
   cfield_type (projr (fst (createField ex_modules ex_connectionForge ex_paginator None 13)))"
  by (simp add: forge_defs ex_defs Let_def pascalCase_def toUpperCase_def)

text \<open>
  Claim C5, amended. Every call of \<^verbatim>\<open>createField\<close> that returns a field has
  built a new edge type, a new connection type and a new order-by enum, three new
  identities; two calls for one paginator return connection types, and edge types
  inside them, with the same names and fields and different identities.
\<close>

theorem C5_createField_builds_new_types:
  assumes "createField m forge P cc heap = (Inr fld1, heap1)"
      and "createField m forge P cc' heap1 = (Inr fld2, heap2)"
  shows "\<exists>gqlPaginatorType.
           cfield_type fld1 =
             GObject (Suc heap) (formatName_type m (type_name gqlPaginatorType @ ''-connection''))
               [cf_connectionInterfaceType forge]
               [(''pageInfo'', GNonNull pageInfoType),
                (''totalCount'', GScalar ''Int''),
                (''edges'', GList
                   (GObject heap (formatName_type m (type_name gqlPaginatorType @ ''-edge''))
                      [cf_edgeInterfaceType forge]
                      [(''cursor'', GNonNull cursorType), (''node'', gqlPaginatorType)])),
                (''nodes'', GList gqlPaginatorType)] \<and>
           cfield_type fld2 =
             GObject (Suc heap1) (formatName_type m (type_name gqlPaginatorType @ ''-connection''))
               [cf_connectionInterfaceType forge]
               [(''pageInfo'', GNonNull pageInfoType),
                (''totalCount'', GScalar ''Int''),
                (''edges'', GList
                   (GObject heap1 (formatName_type m (type_name gqlPaginatorType @ ''-edge''))
                      [cf_edgeInterfaceType forge]
                      [(''cursor'', GNonNull cursorType), (''node'', gqlPaginatorType)])),
                (''nodes'', GList gqlPaginatorType)] \<and>
           heap1 = heap + 3 \<and> heap2 = heap1 + 3 \<and>
           cfield_type fld1 \<noteq> cfield_type fld2"
  using assms
  by (auto simp: createField_def createConnectionType_def createEdgeType_def
        createOrderByEnumType_def Let_def split: sum.splits if_splits)

theorem C5_createField_builds_new_types_witness:
  "snd (createField ex_modules ex_connectionForge ex_paginator None 10) = 10 + 3 \<and>
   snd (createField ex_modules ex_connectionForge ex_paginator None 13) = 13 + 3 \<and>
   cfield_type (projr (fst (createField ex_modules ex_connectionForge ex_paginator None 10))) \<noteq>
   cfield_type (projr (fst (createField ex_modules ex_connectionForge ex_paginator None 13)))"
proof -
  obtain fld1 where f1:
    "createField ex_modules ex_connectionForge ex_paginator None 10 = (Inr fld1, 13)"
    using ex_createField by blast
  obtain fld2 where f2:
    "createField ex_modules ex_connectionForge ex_paginator None 13 = (Inr fld2, 16)"
    by (simp add: forge_defs ex_defs Let_def)
  from C5_createField_builds_new_types [OF f1 f2]
  have "cfield_type fld1 \<noteq> cfield_type fld2" by blast
  then show ?thesis by (simp add: f1 f2)
qed

section \<open>The root fields of a collection\<close>

lemma createRootFieldEntries_primaryKey:
  assumes "col_getPrimaryKey collection = Some primaryKey"
      and "createRootFieldEntries depth m forge cat collection st = Some (entries, st')"
  shows "\<exists>fld rest.
           entries = (formatName_field m (ot_getName (col_getType collection)), fld) # rest \<and>
           rf_resolve fld = primaryKey_resolve m collection primaryKey"
  using assms
  by (auto simp: createRootFieldEntries_def Let_def split: option.splits prod.splits)

lemma ex_createRootFieldEntries:
  "\<exists>entries st'. createRootFieldEntries (Suc 0) ex_modules ex_collectionForge ex_catalog ex_people ex_state
      = Some (entries, st')"
  by (simp add: createRootFieldEntries_def ex_state_def ex_people_def Let_def)

lemma key_keyValue_object:
  assumes "key_getType key = ObjectType n d fs create"
  shows "key_keyValue m key args = create (map (\<lambda>(fname, fdesc, ftype). args_get args fname) fs)"
  using assms by (simp add: key_keyValue_def)

text \<open>
  Claim C7. For a collection with a primary key, the first root field entry is the
  field that selects by global id. Its resolver deserializes \<^verbatim>\<open>__id\<close>; a name that
  is not the collection's is the integrity error; the collection's name gives what
  \<^verbatim>\<open>primaryKey.read(key)\<close> gives, and when that is "no record" the result is the
  absent value and no error.
\<close>

theorem C7_global_id_field_resolve:
  assumes "col_getPrimaryKey collection = Some primaryKey"
      and "createRootFieldEntries depth m forge cat collection st = Some (entries, st')"
      and "id_deserialize m (args_get args ''__id'') = Inr (name, key)"
  shows "fst (hd entries) = formatName_field m (ot_getName (col_getType collection)) \<and>
         (name \<noteq> col_getName collection \<longrightarrow>
            rf_resolve (snd (hd entries)) source args =
              Inl (IdCollectionMismatch name (col_getName collection))) \<and>
         (name = col_getName collection \<longrightarrow>
            rf_resolve (snd (hd entries)) source args = key_read primaryKey key) \<and>
         (name = col_getName collection \<and> key_read primaryKey key = Inr None \<longrightarrow>
            rf_resolve (snd (hd entries)) source args = Inr None)"
proof -
  obtain fld rest where
    e: "entries = (formatName_field m (ot_getName (col_getType collection)), fld) # rest"
    and r: "rf_resolve fld = primaryKey_resolve m collection primaryKey"
    using createRootFieldEntries_primaryKey [OF assms(1,2)] by blast
  show ?thesis
    using assms(3) by (simp add: e r primaryKey_resolve_def)
qed

theorem C7_global_id_field_resolve_witness:
  "col_getPrimaryKey ex_people = Some ex_peoplePrimaryKey \<and>
   id_deserialize ex_modules (args_get [(''__id'', JArr [JStr ''posts'', JNum 1])] ''__id'')
     = Inr (''posts'', JNum 1) \<and>
   id_deserialize ex_modules (args_get [(''__id'', JArr [JStr ''people'', JNum 7])] ''__id'')
     = Inr (''people'', JNum 7) \<and>
   key_read ex_peoplePrimaryKey (JNum 7) = Inr None \<and>
   (let entries = fst (the (createRootFieldEntries (Suc 0) ex_modules ex_collectionForge ex_catalog
                         ex_people ex_state))
    in fst (hd entries) = ''person'' \<and>
       rf_resolve (snd (hd entries)) JUndefined [(''__id'', JArr [JStr ''posts'', JNum 1])]
         = Inl (IdCollectionMismatch ''posts'' ''people'') \<and>
       rf_resolve (snd (hd entries)) JUndefined [(''__id'', JArr [JStr ''people'', JNum 7])]
         = Inr None)"
proof -
  obtain entries st' where
    e: "createRootFieldEntries (Suc 0) ex_modules ex_collectionForge ex_catalog ex_people ex_state
          = Some (entries, st')"
    using ex_createRootFieldEntries by blast
  have pk: "col_getPrimaryKey ex_people = Some ex_peoplePrimaryKey"
    by (simp add: ex_people_def)
  have d1: "id_deserialize ex_modules (args_get [(''__id'', JArr [JStr ''posts'', JNum 1])] ''__id'')
              = Inr (''posts'', JNum 1)"
    by (simp add: ex_modules_def args_get_def)
  have d2: "id_deserialize ex_modules (args_get [(''__id'', JArr [JStr ''people'', JNum 7])] ''__id'')
              = Inr (''people'', JNum 7)"
    by (simp add: ex_modules_def args_get_def)
  have n: "col_getName ex_people = ''people''" "key_read ex_peoplePrimaryKey (JNum 7) = Inr None"
          "formatName_field ex_modules (ot_getName (col_getType ex_people)) = ''person''"
    by (simp_all add: ex_people_def ex_peoplePrimaryKey_def ex_modules_def ex_personType_def)
  from C7_global_id_field_resolve [OF pk e d1, of JUndefined]
       C7_global_id_field_resolve [OF pk e d2, of JUndefined]
  show ?thesis
    by (simp add: e pk d1 d2 n)
qed

text \<open>
  Claim C8. A key whose type has the fields \<^verbatim>\<open>full_name\<close> and \<^verbatim>\<open>email\<close>
  gets the arguments \<^verbatim>\<open>fullName\<close> and \<^verbatim>\<open>email\<close>. The resolver reads the
  arguments under the fields' own names, so the value of \<^verbatim>\<open>fullName\<close> is not
  read: the key value is built from \<^verbatim>\<open>undefined\<close> and the person that the two
  argument values identify is not found.
\<close>

theorem C8_composite_key_args_read_by_field_name:
  "map fst (key_args ex_modules ex_collectionForge ex_peopleNameKey) = [''fullName'', ''email''] \<and>
   key_keyValue ex_modules ex_peopleNameKey
     [(''fullName'', JStr ''Ann''), (''email'', JStr ''ann@example.org'')]
     = JArr [JUndefined, JStr ''ann@example.org''] \<and>
   key_resolve ex_modules ex_peopleNameKey JUndefined
     [(''fullName'', JStr ''Ann''), (''email'', JStr ''ann@example.org'')] = Inr None \<and>
   key_read ex_peopleNameKey (JArr [JStr ''Ann'', JStr ''ann@example.org'']) = Inr (Some ex_ann)"
  by (simp add: key_args_def key_keyValue_def key_resolve_def args_get_def buildObject_def
        List.map_filter_def ex_peopleNameKey_def ex_modules_def toUpperCase_def)

section \<open>The type of a collection\<close>

lemma ex_cycle_descends:
  "getType depth ex_modules ex_collectionForge ex_catalog ex_authors
     \<lparr> next_ident = n, getType_cache = Map.empty \<rparr> = None \<and>
   getType depth ex_modules ex_collectionForge ex_catalog ex_posts
     \<lparr> next_ident = n, getType_cache = Map.empty \<rparr> = None"
proof (induction depth)
  case 0
  show ?case by simp
next
  case (Suc depth)
  have a: "col_getTailRelations ex_authors =
        [\<lparr> rel_getName = ''latest_post'',
            rel_getHeadCollectionKey = ex_postsPrimaryKey,
            rel_getHeadKeyFromTailValue = (\<lambda>v. JUndefined) \<rparr>]"
    by (simp add: ex_authors_def)
  have p: "col_getTailRelations ex_posts =
         [\<lparr> rel_getName = ''author'',
            rel_getHeadCollectionKey = ex_authorsPrimaryKey,
            rel_getHeadKeyFromTailValue = (\<lambda>v. JUndefined) \<rparr>]"
    by (simp add: ex_posts_def)
  have k: "ex_catalog (key_getCollection ex_postsPrimaryKey) = ex_posts"
          "ex_catalog (key_getCollection ex_authorsPrimaryKey) = ex_authors"
    by (simp_all add: ex_catalog_def ex_postsPrimaryKey_def ex_authorsPrimaryKey_def)
  from Suc show ?case
    by (simp add: a p k Let_def)
qed

text \<open>
  Claim C4. For two collections that refer to each other, with nothing cached,
  \<^verbatim>\<open>getType\<close> does not return within any depth of nested calls: building the
  fields of the one calls \<^verbatim>\<open>getType\<close> of the other before either descriptor
  exists.
\<close>

theorem C4_getType_cycle_never_returns:
  "getType depth ex_modules ex_collectionForge ex_catalog ex_authors
     \<lparr> next_ident = n, getType_cache = Map.empty \<rparr> = None"
  using ex_cycle_descends by simp

section \<open>Further properties\<close>

lemma getType_caches_result:
  assumes "getType depth m forge cat collection st = Some (gqlType, st')"
  shows "getType_cache st' (col_ident collection) = Some gqlType"
proof (cases depth)
  case 0
  with assms show ?thesis by simp
next
  case (Suc d)
  with assms show ?thesis
    by (auto simp: Let_def split: option.splits prod.splits)
qed

text \<open>
  What holds of \<^verbatim>\<open>getType\<close>: a call that returns has cached its result, so every
  later call for that collection returns the same descriptor, creates nothing and leaves
  the state as it is.
\<close>

theorem getType_memoized:
  assumes "getType depth m forge cat collection st = Some (gqlType, st')"
  shows "getType (Suc depth') m forge cat collection st' = Some (gqlType, st')"
  using getType_caches_result [OF assms] by simp

theorem getType_memoized_witness:
  "getType (Suc 0) ex_modules ex_collectionForge ex_catalog ex_people ex_state =
     Some (GObject 10 ''Person'' [ex_nodeInterface]
             [(''__id'', GNonNull (GScalar ''ID'')), (''rowId'', GScalar ''Int''),
              (''fullName'', GScalar ''String'')],
           \<lparr> next_ident = 11,
             getType_cache = [1 \<mapsto> GObject 10 ''Person'' [ex_nodeInterface]
               [(''__id'', GNonNull (GScalar ''ID'')), (''rowId'', GScalar ''Int''),
                (''fullName'', GScalar ''String'')]] \<rparr>) \<and>
   getType (Suc 5) ex_modules ex_collectionForge ex_catalog ex_people
     \<lparr> next_ident = 11,
       getType_cache = [1 \<mapsto> GObject 10 ''Person'' [ex_nodeInterface]
         [(''__id'', GNonNull (GScalar ''ID'')), (''rowId'', GScalar ''Int''),
          (''fullName'', GScalar ''String'')]] \<rparr> =
     Some (GObject 10 ''Person'' [ex_nodeInterface]
             [(''__id'', GNonNull (GScalar ''ID'')), (''rowId'', GScalar ''Int''),
              (''fullName'', GScalar ''String'')],
           \<lparr> next_ident = 11,
             getType_cache = [1 \<mapsto> GObject 10 ''Person'' [ex_nodeInterface]
               [(''__id'', GNonNull (GScalar ''ID'')), (''rowId'', GScalar ''Int''),
                (''fullName'', GScalar ''String'')]] \<rparr>)"
proof -
  have g: "getType (Suc 0) ex_modules ex_collectionForge ex_catalog ex_people ex_state =
     Some (GObject 10 ''Person'' [ex_nodeInterface]
             [(''__id'', GNonNull (GScalar ''ID'')), (''rowId'', GScalar ''Int''),
              (''fullName'', GScalar ''String'')],
           \<lparr> next_ident = 11,
             getType_cache = [1 \<mapsto> GObject 10 ''Person'' [ex_nodeInterface]
               [(''__id'', GNonNull (GScalar ''ID'')), (''rowId'', GScalar ''Int''),
                (''fullName'', GScalar ''String'')]] \<rparr>)"
    by (simp add: ex_state_def ex_people_def ex_personType_def ex_modules_def
          ex_collectionForge_def ex_nodeForge_def ex_typeForge_def Let_def buildObject_def
          List.map_filter_def pascalCase_def toUpperCase_def)
  from getType_memoized [OF g, of 5] g show ?thesis by simp
qed

lemma getType_tailRelations_returns:
  assumes "\<And>r st. r \<in> set rs \<Longrightarrow>
             \<exists>t st'. getType d m forge cat (cat (key_getCollection (rel_getHeadCollectionKey r))) st
                       = Some (t, st')"
  shows "\<exists>es st'. getType_tailRelations d m forge cat rs st = Some (es, st')"
  using assms
proof (induction rs arbitrary: st)
  case Nil
  show ?case by simp
next
  case (Cons r rs)
  obtain t st1 where
    h: "getType d m forge cat (cat (key_getCollection (rel_getHeadCollectionKey r))) st = Some (t, st1)"
    using Cons.prems [of r st] by auto
  obtain es st2 where t: "getType_tailRelations d m forge cat rs st1 = Some (es, st2)"
    using Cons.IH [of st1] Cons.prems by auto
  show ?case
    by (simp add: Let_def h t)
qed

lemma getType_returns_aux:
  assumes rank: "\<And>c r. c \<in> insert collection (range cat) \<Longrightarrow> r \<in> set (col_getTailRelations c) \<Longrightarrow>
             rank (cat (key_getCollection (rel_getHeadCollectionKey r))) < rank c"
  shows "c \<in> insert collection (range cat) \<Longrightarrow> rank c \<le> d \<Longrightarrow>
         \<exists>t st'. getType (Suc d) m forge cat c st = Some (t, st')"
proof (induction d arbitrary: c st rule: less_induct)
  case (less d)
  have "\<exists>es st'. getType_tailRelations d m forge cat (col_getTailRelations c) st = Some (es, st')"
  proof (rule getType_tailRelations_returns)
    fix r st0
    assume r: "r \<in> set (col_getTailRelations c)"
    let ?h = "cat (key_getCollection (rel_getHeadCollectionKey r))"
    have lt: "rank ?h < rank c" using rank [OF less.prems(1) r] .
    with less.prems(2) obtain d' where d: "d = Suc d'" "rank ?h \<le> d'"
      by (cases d) auto
    have "?h \<in> insert collection (range cat)" by simp
    from less.IH [OF _ this d(2), of st0] d(1)
    show "\<exists>t st'. getType d m forge cat ?h st0 = Some (t, st')" by simp
  qed
  then obtain es st1 where
    "getType_tailRelations d m forge cat (col_getTailRelations c) st = Some (es, st1)" by auto
  then show ?case
    by (cases "getType_cache st (col_ident c)") (simp_all add: Let_def)
qed

text \<open>
  And where the tail relations form no cycle (every relation of the collection, and of
  every collection of the catalog, leads to a collection of lower rank), \<^verbatim>\<open>getType\<close>
  returns, within a depth of nested calls of one more than the collection's rank.
\<close>

theorem getType_returns_when_acyclic:
  assumes "\<And>c r. c \<in> insert collection (range cat) \<Longrightarrow> r \<in> set (col_getTailRelations c) \<Longrightarrow>
             rank (cat (key_getCollection (rel_getHeadCollectionKey r))) < rank c"
  shows "\<exists>t st'. getType (Suc (rank collection)) m forge cat collection st = Some (t, st')"
  using getType_returns_aux [of collection cat rank collection "rank collection" m forge st] assms
  by simp

theorem getType_returns_when_acyclic_witness:
  "getType (Suc (Suc 0)) ex_modules ex_collectionForge ex_acyclicCatalog ex_comments ex_state
     \<noteq> None"
proof -
  let ?rank = "\<lambda>c. if col_ident c = 4 then Suc 0 else 0"
  have r: "\<And>c r. c \<in> insert ex_comments (range ex_acyclicCatalog) \<Longrightarrow>
             r \<in> set (col_getTailRelations c) \<Longrightarrow>
             ?rank (ex_acyclicCatalog (key_getCollection (rel_getHeadCollectionKey r))) < ?rank c"
  proof -
    fix c r
    assume "c \<in> insert ex_comments (range ex_acyclicCatalog)"
    then have "c = ex_comments \<or> c = ex_people"
      by (auto simp: ex_acyclicCatalog_def)
    moreover assume "r \<in> set (col_getTailRelations c)"
    ultimately show
      "?rank (ex_acyclicCatalog (key_getCollection (rel_getHeadCollectionKey r))) < ?rank c"
      by (auto simp: ex_comments_def ex_people_def ex_acyclicCatalog_def ex_peoplePrimaryKey_def)
  qed
  have "?rank ex_comments = Suc 0" by (simp add: ex_comments_def)
  with getType_returns_when_acyclic
         [of ex_comments ex_acyclicCatalog ?rank ex_modules ex_collectionForge ex_state, OF r]
  show ?thesis by auto
qed

text \<open>
  A cursor a resolved connection mints, with a payload that is a JSON value, is
  well-formed, and the token it is serialized to deserializes to it.
\<close>

theorem minted_cursor_token_roundtrip:
  assumes "createField_resolve P cc source args ctx log = (Inr conn, log')"
      and "c \<in> set (map (edge_cursor_resolve P) (connection_edges_resolve conn)) \<or>
           pageInfo_startCursor_resolve conn = Inr c \<or>
           pageInfo_endCursor_resolve conn = Inr c"
      and "json_value (cursor c)"
  shows "wellformed_cursor c \<and> deserializeCursor (serializeCursor c) = Some (Inr c)"
proof -
  have conn: "conn_paginator conn = P"
    using createField_resolve_Inr [OF assms(1)] by simp
  have n: "paginatorName c = JStr (pg_getName P)"
          "orderingName c = orderingName_of (conn_ordering conn)"
    using minted_cursor_names [OF assms(2) conn] by simp_all
  then have w: "wellformed_cursor c"
    using assms(3) by (simp add: wellformed_cursor_def orderingName_of_def split: option.splits)
  then have "json_value (JArr [paginatorName c, orderingName c, cursor c])"
    by (rule wellformed_cursor_json)
  then show ?thesis
    using w by (simp add: deserialize_serialize)
qed

theorem minted_cursor_token_roundtrip_witness:
  "ex_mintedCursor \<in> set (map (edge_cursor_resolve ex_paginator)
       (connection_edges_resolve
          \<lparr> conn_paginator = ex_paginator, conn_ordering = orderBy ex_args,
            conn_condition = ConditionTrue, conn_page = ex_page \<rparr>)) \<and>
   json_value (cursor ex_mintedCursor) \<and>
   deserializeCursor (serializeCursor ex_mintedCursor) = Some (Inr ex_mintedCursor)"
proof -
  let ?conn = "\<lparr> conn_paginator = ex_paginator, conn_ordering = orderBy ex_args,
                  conn_condition = ConditionTrue, conn_page = ex_page \<rparr>"
  have h3: "ex_mintedCursor \<in> set (map (edge_cursor_resolve ex_paginator) (connection_edges_resolve ?conn)) \<or>
            pageInfo_startCursor_resolve ?conn = Inr ex_mintedCursor \<or>
            pageInfo_endCursor_resolve ?conn = Inr ex_mintedCursor"
    by (simp add: edge_cursor_resolve_def connection_edges_resolve_def ex_mintedCursor_def
          ex_page_def ex_args_def ex_paginator_def orderingName_of_def)
  have j: "json_value (cursor ex_mintedCursor)"
    by (simp add: ex_mintedCursor_def)
  from minted_cursor_token_roundtrip [OF ex_resolve h3 j] h3 j
  show ?thesis
    by (simp add: edge_cursor_resolve_def connection_edges_resolve_def ex_mintedCursor_def
          ex_page_def ex_args_def ex_paginator_def orderingName_of_def)
qed

end
